theory Spec2Isabelle
  imports Main
begin

section \<open>Go strings and the standard-library calls of the generator\<close>

text \<open>
  A Go string is a sequence of bytes, so it is modelled as a \<open>char list\<close>
  (an Isabelle \<open>char\<close> is one byte). The generator only ever splits on the
  one-byte separator \<open>"\n"\<close>; \<open>Split s sep\<close> is \<open>strings.Split\<close>
  for a separator of a single byte, \<open>Join\<close> is \<open>strings.Join\<close>. A split
  always has at least one piece, so the empty case in \<open>Split\<close> is never taken.
\<close>

abbreviation NL :: char where
  "NL \<equiv> CHR 0x0A"

abbreviation TAB :: char where
  "TAB \<equiv> CHR 0x09"

abbreviation BSL :: char where
  "BSL \<equiv> CHR 0x5C"

primrec Split :: "string \<Rightarrow> char \<Rightarrow> string list" where
  "Split [] sep = [[]]"
| "Split (c # cs) sep =
     (if c = sep then [] # Split cs sep
      else (case Split cs sep of
              [] \<Rightarrow> [[c]]
            | l # ls \<Rightarrow> (c # l) # ls))"

fun Join :: "string list \<Rightarrow> string \<Rightarrow> string" where
  "Join [] sep = []"
| "Join [x] sep = x"
| "Join (x # y # ys) sep = x @ sep @ Join (y # ys) sep"

definition HasPrefix :: "string \<Rightarrow> string \<Rightarrow> bool" where
  "HasPrefix s p = (take (length p) s = p)"

definition HasSuffix :: "string \<Rightarrow> string \<Rightarrow> bool" where
  "HasSuffix s p = (length p \<le> length s \<and> drop (length s - length p) s = p)"

definition Contains_nl :: "string \<Rightarrow> bool" where
  \<comment> \<open>\<open>strings.Contains(s, "\n")\<close>\<close>
  "Contains_nl s = (NL \<in> set s)"

text \<open>
  \<open>strings.Trim(s, cutset)\<close> for a cutset of one-byte characters; the generator
  calls it with the empty cutset, which trims nothing.
\<close>

definition Trim :: "string \<Rightarrow> string \<Rightarrow> string" where
  "Trim s cutset =
     rev (dropWhile (\<lambda>c. c \<in> set cutset) (rev (dropWhile (\<lambda>c. c \<in> set cutset) s)))"

text \<open>
  \<open>strings.TrimSpace\<close> removes leading and trailing white space as Unicode defines
  it. On the bytes of a UTF-8 string these are the six ASCII characters
  \<open>\t \n \v \f \r\<close> and space, and the encodings of U+0085, U+00A0, U+1680,
  U+2000 to U+200A, U+2028, U+2029, U+202F, U+205F and U+3000.
\<close>

definition asciiSpace :: "char \<Rightarrow> bool" where
  "asciiSpace c = (c \<in> set [CHR 0x09, CHR 0x0A, CHR 0x0B, CHR 0x0C, CHR 0x0D, CHR 0x20])"

definition unicodeSpaces :: "string list" where
  "unicodeSpaces =
     [[CHR 0xC2, CHR 0x85], [CHR 0xC2, CHR 0xA0], [CHR 0xE1, CHR 0x9A, CHR 0x80]]
     @ map (\<lambda>b. [CHR 0xE2, CHR 0x80, b])
         [CHR 0x80, CHR 0x81, CHR 0x82, CHR 0x83, CHR 0x84, CHR 0x85, CHR 0x86, CHR 0x87,
          CHR 0x88, CHR 0x89, CHR 0x8A, CHR 0xA8, CHR 0xA9, CHR 0xAF]
     @ [[CHR 0xE2, CHR 0x81, CHR 0x9F], [CHR 0xE3, CHR 0x80, CHR 0x80]]"

definition leadingSpace :: "string \<Rightarrow> nat" where
  \<comment> \<open>the width in bytes of the white-space character \<open>s\<close> starts with, or 0\<close>
  "leadingSpace s =
     (case s of [] \<Rightarrow> 0
      | c # _ \<Rightarrow> if asciiSpace c then 1
                 else (case find (\<lambda>u. take (length u) s = u) unicodeSpaces of
                         None \<Rightarrow> 0 | Some u \<Rightarrow> length u))"

definition trailingSpace :: "string \<Rightarrow> nat" where
  \<comment> \<open>the width in bytes of the white-space character \<open>s\<close> ends with, or 0\<close>
  "trailingSpace s =
     (if s = [] then 0
      else if asciiSpace (last s) then 1
      else (case find (\<lambda>u. length u \<le> length s \<and> drop (length s - length u) s = u) unicodeSpaces of
              None \<Rightarrow> 0 | Some u \<Rightarrow> length u))"

function TrimLeftSpace :: "string \<Rightarrow> string" where
  "TrimLeftSpace s = (if leadingSpace s = 0 then s else TrimLeftSpace (drop (leadingSpace s) s))"
  by pat_completeness auto
termination
  by (relation "measure length") (auto simp: leadingSpace_def split: list.splits)

function TrimRightSpace :: "string \<Rightarrow> string" where
  "TrimRightSpace s =
     (if trailingSpace s = 0 then s else TrimRightSpace (take (length s - trailingSpace s) s))"
  by pat_completeness auto
termination
  by (relation "measure length") (auto simp: trailingSpace_def split: if_splits)

declare TrimLeftSpace.simps [simp del] TrimRightSpace.simps [simp del]

definition TrimSpace :: "string \<Rightarrow> string" where
  "TrimSpace s = TrimRightSpace (TrimLeftSpace s)"

text \<open>
  \<open>path.Join\<close> joins its non-empty arguments with slashes and cleans the result
  lexically (\<open>path.Clean\<close>: no empty or \<open>.\<close> element, \<open>..\<close> cancels the element
  before it, \<open>..\<close> at the root is dropped, the empty path is \<open>.\<close>).
  \<open>filepath.Join\<close> and \<open>filepath.Dir\<close> are taken on a system whose separator
  is the slash.
\<close>

fun cleanElems :: "bool \<Rightarrow> string list \<Rightarrow> string list \<Rightarrow> string list" where
  "cleanElems rooted out [] = rev out"
| "cleanElems rooted out (e # es) =
     (if e = [] \<or> e = ''.'' then cleanElems rooted out es
      else if e = ''..'' then
        (case out of
           [] \<Rightarrow> if rooted then cleanElems rooted [] es else cleanElems rooted [''..''] es
         | t # ts \<Rightarrow> if t = ''..'' then cleanElems rooted (''..'' # out) es
                     else cleanElems rooted ts es)
      else cleanElems rooted (e # out) es)"

definition Clean :: "string \<Rightarrow> string" where
  "Clean p =
     (if p = [] then ''.''
      else let rooted = (hd p = CHR ''/'');
               out = Join (cleanElems rooted [] (Split p (CHR ''/''))) ''/''
           in if rooted then CHR ''/'' # out else if out = [] then ''.'' else out)"

definition pathJoin :: "string list \<Rightarrow> string" where
  "pathJoin elem =
     (let buf = foldl (\<lambda>buf e. if buf \<noteq> [] \<or> e \<noteq> []
                                then (if buf \<noteq> [] then buf @ ''/'' else buf) @ e
                                else buf) [] elem
      in if buf = [] then [] else Clean buf)"

definition pathDir :: "string \<Rightarrow> string" where
  "pathDir p = Clean (rev (dropWhile (\<lambda>c. c \<noteq> CHR ''/'') (rev p)))"

text \<open>The verb \<open>%d\<close> of \<open>fmt.Sprintf\<close> on an integer: its decimal digits.\<close>

fun showNat :: "nat \<Rightarrow> string" where
  "showNat n =
     (if n < 10 then [char_of (48 + n)] else showNat (n div 10) @ [char_of (48 + n mod 10)])"

declare showNat.simps [simp del]

definition showInt :: "int \<Rightarrow> string" where
  "showInt i = (if i < 0 then CHR ''-'' # showNat (nat (- i)) else showNat (nat i))"

subsection \<open>\<open>filterEmpty\<close> and \<open>joinStringsWithoutLineSpace\<close>\<close>

fun filterEmpty :: "string list \<Rightarrow> string list" where
  "filterEmpty [] = []"
| "filterEmpty (s # list) = (if s \<noteq> [] then s # filterEmpty list else filterEmpty list)"

definition joinStringsWithoutLineSpace :: "string list \<Rightarrow> string" where
  "joinStringsWithoutLineSpace chunks =
     Join (filterEmpty (foldl (\<lambda>lines chunk. lines @ Split chunk NL) [] chunks)) [NL]"

subsection \<open>The ignore file\<close>

definition DockerignoreHeader :: string where
  "DockerignoreHeader =
     ''# generated by replicate/cog\<newline>__pycache__\<newline>*.pyc\<newline>*.pyo\<newline>*.pyd\<newline>.Python\<newline>env\<newline>pip-log.txt\<newline>pip-delete-this-directory.txt\<newline>.tox\<newline>.coverage\<newline>.coverage.*\<newline>.cache\<newline>nosetests.xml\<newline>coverage.xml\<newline>*.cover\<newline>*.log\<newline>.git\<newline>.mypy_cache\<newline>.pytest_cache\<newline>.hypothesis\<newline>''"

definition makeDockerignoreForWeights :: "string list \<Rightarrow> string list \<Rightarrow> string" where
  "makeDockerignoreForWeights dirs files =
     (let contents = foldl (\<lambda>contents p. contents @ p @ [NL] @ p @ ''/**/*'' @ [NL]) [] dirs;
          contents = foldl (\<lambda>contents p. contents @ p @ [NL]) contents files
      in DockerignoreHeader @ contents)"

section \<open>Data model\<close>

text \<open>A Go \<open>error\<close> is known by its message.\<close>

datatype error = Error string

primrec message :: "error \<Rightarrow> string" where
  "message (Error m) = m"

text \<open>The configuration (package \<open>config\<close>): the fields the generator reads.\<close>

record Mount =
  Type :: string
  ID :: string
  Target :: string

record RunItem =
  Command :: string
  Mounts :: "Mount list"

record Build =
  GPU :: bool
  CUDA :: string
  PythonVersion :: string
  SystemPackages :: "string list"
  Run :: "RunItem list"
  PreInstall :: "string list"

record Config =
  Build :: Build

record Version =
  Major :: int
  Minor :: int

record BaseImageGenerator =
  cudaVersion :: string
  pythonVersion :: string
  torchVersion :: string

text \<open>
  The generator. \<open>'w\<close> is the type of the file walker, which the generator only
  passes on to the weight finder.
\<close>

record 'w Generator =
  Config :: Config
  Dir :: string
  GOOS :: string
  GOARCH :: string
  useCudaBaseImage :: bool
  useCogBaseImage :: bool
  tmpDir :: string
  relativeTmpDir :: string
  fileWalker :: 'w
  modelDirs :: "string list"
  modelFiles :: "string list"
  pythonRequirementsContents :: string

text \<open>
  What the generator calls and does not define: methods of the configuration, the
  version parser, the base-image matrix, the weight finder, the embedded wheel, the
  process environment, the clock and the file system. Each is a parameter. A call to
  the file system is modelled by its outcome; what is on disk afterwards is not part
  of the model, since the generator never reads it back. Console output
  (\<open>console.Warnf\<close>, \<open>console.Debugf\<close>) is not modelled.
\<close>

record 'w collaborators =
  NewVersion :: "string \<Rightarrow> error + Version"
  TorchVersion :: "Config \<Rightarrow> string \<times> bool"
  TorchvisionVersion :: "Config \<Rightarrow> string \<times> bool"
  PythonRequirementsForArch :: "Config \<Rightarrow> string \<Rightarrow> string \<Rightarrow> string list \<Rightarrow> string \<times> error option"
  CUDABaseImageTag :: "Config \<Rightarrow> error + string"
  NewBaseImageGenerator :: "string \<Rightarrow> string \<Rightarrow> string \<Rightarrow> error + BaseImageGenerator"
  BaseImageName :: "string \<Rightarrow> string \<Rightarrow> string \<Rightarrow> string"
  baseImageSystemPackages :: "string list"
  FindWeights :: "'w \<Rightarrow> error + (string list \<times> string list)"
  cogWheelEmbed :: string
  Getenv :: "string \<Rightarrow> string"
  MkdirAll :: "string \<Rightarrow> error option"
  WriteFile :: "string \<Rightarrow> string \<Rightarrow> error option"
  MkdirTemp :: "string \<Rightarrow> string \<Rightarrow> error + string"
  Rel :: "string \<Rightarrow> string \<Rightarrow> error + string"
  NowFormat :: "string \<Rightarrow> string"
  runtime_GOOS :: string
  runtime_GOARCH :: string
  filepath_Walk :: 'w

text \<open>
  Modelled from the spec: \<open>slices.FilterString\<close> and \<open>slices.ContainsString\<close>
  (package \<open>util/slices\<close>), which are not among the sources. The spec says of their
  one use that packages already present in the base image are removed from the
  requested list.
\<close>

definition ContainsString :: "string list \<Rightarrow> string \<Rightarrow> bool" where
  \<comment> \<open>Modelled from the spec: \<open>slices.ContainsString\<close>, whether the list has the string.\<close>
  "ContainsString strings needle = (needle \<in> set strings)"

definition FilterString :: "string list \<Rightarrow> (string \<Rightarrow> bool) \<Rightarrow> string list" where
  \<comment> \<open>Modelled from the spec: \<open>slices.FilterString\<close>, the strings that pass the test, in order.\<close>
  "FilterString ss test = filter test ss"

text \<open>
  Modelled from the spec: \<open>version.NewVersion\<close> (package \<open>util/version\<close>), which is
  not among the sources. The spec says only that the input must parse as a semantic
  version, and that \<open>3.10.5\<close> and \<open>3.10\<close> parse while \<open>not-a-version\<close> does
  not: here a version is one to three decimal numbers separated by dots, a missing
  minor number being 0.
\<close>

definition parseNat :: "string \<Rightarrow> nat option" where
  \<comment> \<open>Modelled from the spec: one numeric component of a version, in decimal digits.\<close>
  "parseNat s =
     (if s \<noteq> [] \<and> list_all (\<lambda>c. (48::nat) \<le> of_char c \<and> of_char c \<le> (57::nat)) s
      then Some (foldl (\<lambda>a c. 10 * a + (of_char c - 48)) 0 s)
      else None)"

definition semverNewVersion :: "string \<Rightarrow> error + Version" where
  \<comment> \<open>Modelled from the spec: \<open>version.NewVersion\<close>, parsing a semantic version.\<close>
  "semverNewVersion s =
     (let parts = Split s (CHR ''.'') in
      if 3 < length parts \<or> \<not> list_all (\<lambda>p. parseNat p \<noteq> None) parts
      then Inl (Error (''Invalid version: '' @ s))
      else Inr \<lparr>Major = int (the (parseNat (parts ! 0))),
                Minor = (if 2 \<le> length parts then int (the (parseNat (parts ! 1))) else 0)\<rparr>)"

section \<open>The generator\<close>


definition SetUseCudaBaseImage :: "string \<Rightarrow> 'w Generator \<Rightarrow> 'w Generator" where
  "SetUseCudaBaseImage argumentValue g = g\<lparr>useCudaBaseImage := (argumentValue \<noteq> ''false'')\<rparr>"

definition SetUseCogBaseImage :: "bool \<Rightarrow> 'w Generator \<Rightarrow> 'w Generator" where
  "SetUseCogBaseImage b g = g\<lparr>useCogBaseImage := b\<rparr>"

definition IsUsingCogBaseImage :: "'w Generator \<Rightarrow> bool" where
  "IsUsingCogBaseImage g = useCogBaseImage g"

subsection \<open>Base image\<close>

definition stripPatchVersion ::
  "(string \<Rightarrow> error + Version) \<Rightarrow> string \<Rightarrow> error + (string \<times> bool)" where
  "stripPatchVersion newVersion versionString =
     (if versionString = [] then Inr ([], False)
      else case newVersion versionString of
             Inl err \<Rightarrow> Inl (Error (''Invalid version: '' @ versionString))
           | Inr v \<Rightarrow>
               let strippedVersion = showInt (Major v) @ ''.'' @ showInt (Minor v);
                   changed = (strippedVersion \<noteq> versionString)
               in Inr (strippedVersion, changed))"

definition BaseImage :: "'w collaborators \<Rightarrow> 'w Generator \<Rightarrow> error + string" where
  "BaseImage E g =
     (if useCogBaseImage g then
        (let cuda = CUDA (Build (Config g)) in
         case stripPatchVersion (NewVersion E) (PythonVersion (Build (Config g))) of
           Inl err \<Rightarrow> Inl err
         | Inr (python, changed) \<Rightarrow>
             (case stripPatchVersion (NewVersion E) (fst (TorchVersion E (Config g))) of
                Inl err \<Rightarrow> Inl err
              | Inr (torch, changed) \<Rightarrow>
                  (case NewBaseImageGenerator E cuda python torch of
                     Inl err \<Rightarrow> Inl err
                   | Inr imageGenerator \<Rightarrow>
                       Inr (BaseImageName E (cudaVersion imageGenerator)
                              (pythonVersion imageGenerator) (torchVersion imageGenerator)))))
      else if GPU (Build (Config g)) \<and> useCudaBaseImage g then CUDABaseImageTag E (Config g)
      else Inr (''python:'' @ PythonVersion (Build (Config g)) @ ''-slim''))"

subsection \<open>Fixed fragments\<close>

definition preamble :: string where
  "preamble =
       ''ENV DEBIAN_FRONTEND=noninteractive'' @ [NL] @
       ''ENV PYTHONUNBUFFERED=1'' @ [NL] @
       ''ENV LD_LIBRARY_PATH=$LD_LIBRARY_PATH:/usr/lib/x86_64-linux-gnu:/usr/local/nvidia/lib64:/usr/local/nvidia/bin'' @ [NL] @
       ''ENV NVIDIA_DRIVER_CAPABILITIES=all''"

definition installTini :: string where
  \<open>installTini =
     (let lines = [
       ''RUN --mount=type=cache,target=/var/cache/apt,sharing=locked set -eux; '' @ [BSL, NL] @
       ''apt-get update -qq && '' @ [BSL, NL] @
       ''apt-get install -qqy --no-install-recommends curl; '' @ [BSL, NL] @
       ''rm -rf /var/lib/apt/lists/*; '' @ [BSL, NL] @
       ''TINI_VERSION=v0.19.0; '' @ [BSL, NL] @
       ''TINI_ARCH="$(dpkg --print-architecture)"; '' @ [BSL, NL] @
       ''curl -sSL -o /sbin/tini "https://github.com/krallin/tini/releases/download/${TINI_VERSION}/tini-${TINI_ARCH}"; '' @ [BSL, NL] @
       ''chmod +x /sbin/tini'',
       ''ENTRYPOINT ["/sbin/tini", "--"]'']
      in Join lines [NL])\<close>

definition installPythonCUDA :: "'w Generator \<Rightarrow> error + string" where
  \<open>installPythonCUDA g =
     (let py = PythonVersion (Build (Config g)) in
      Inr (
       ''ENV PATH="/root/.pyenv/shims:/root/.pyenv/bin:$PATH"'' @ [NL] @
       ''RUN --mount=type=cache,target=/var/cache/apt,sharing=locked apt-get update -qq && apt-get install -qqy --no-install-recommends '' @ [BSL, NL] @
       [TAB] @ ''make '' @ [BSL, NL] @
       [TAB] @ ''build-essential '' @ [BSL, NL] @
       [TAB] @ ''libssl-dev '' @ [BSL, NL] @
       [TAB] @ ''zlib1g-dev '' @ [BSL, NL] @
       [TAB] @ ''libbz2-dev '' @ [BSL, NL] @
       [TAB] @ ''libreadline-dev '' @ [BSL, NL] @
       [TAB] @ ''libsqlite3-dev '' @ [BSL, NL] @
       [TAB] @ ''wget '' @ [BSL, NL] @
       [TAB] @ ''curl '' @ [BSL, NL] @
       [TAB] @ ''llvm '' @ [BSL, NL] @
       [TAB] @ ''libncurses5-dev '' @ [BSL, NL] @
       [TAB] @ ''libncursesw5-dev '' @ [BSL, NL] @
       [TAB] @ ''xz-utils '' @ [BSL, NL] @
       [TAB] @ ''tk-dev '' @ [BSL, NL] @
       [TAB] @ ''libffi-dev '' @ [BSL, NL] @
       [TAB] @ ''liblzma-dev '' @ [BSL, NL] @
       [TAB] @ ''git '' @ [BSL, NL] @
       [TAB] @ ''ca-certificates '' @ [BSL, NL] @
       [TAB] @ ''&& rm -rf /var/lib/apt/lists/*'' @ [NL] @
       ''RUN curl -s -S -L https://raw.githubusercontent.com/pyenv/pyenv-installer/master/bin/pyenv-installer | bash && '' @ [BSL, NL] @
       [TAB] @ ''git clone https://github.com/momo-lab/pyenv-install-latest.git "$(pyenv root)"/plugins/pyenv-install-latest && '' @ [BSL, NL] @
       [TAB] @ ''pyenv install-latest "'' @ py @ ''" && '' @ [BSL, NL] @
       [TAB] @ ''pyenv global $(pyenv install-latest --print "'' @ py @ ''") && '' @ [BSL, NL] @
       [TAB] @ ''pip install "wheel<1"''))\<close>

definition installPython :: "'w Generator \<Rightarrow> error + string" where
  "installPython g =
     (if GPU (Build (Config g)) \<and> useCudaBaseImage g \<and> \<not> useCogBaseImage g
      then installPythonCUDA g
      else Inr [])"

definition copyPipPackagesFromInstallStage :: "'w Generator \<Rightarrow> string" where
  \<open>copyPipPackagesFromInstallStage g =
     (let py = PythonVersion (Build (Config g)) in
      if GPU (Build (Config g)) \<and> (useCudaBaseImage g \<or> useCogBaseImage g) then
       [NL] @
       ''RUN --mount=type=bind,from=deps,source=/dep,target=/dep '' @ [BSL, NL] @
       ''    cp -rf /dep/* $(pyenv prefix)/lib/python*/site-packages; '' @ [BSL, NL] @
       ''    cp -rf /dep/bin/* $(pyenv prefix)/bin; '' @ [BSL, NL] @
       ''    pyenv rehash'' @ [NL]
      else ''COPY --from=deps --link /dep /usr/local/lib/python'' @ py @ ''/site-packages'')\<close>

subsection \<open>System packages and run commands\<close>

definition aptInstalls :: "'w collaborators \<Rightarrow> 'w Generator \<Rightarrow> error + string" where
  "aptInstalls E g =
     (let packages = SystemPackages (Build (Config g)) in
      if length packages = 0 then Inr []
      else
        let packages =
              (if useCogBaseImage g
               then FilterString packages (\<lambda>pkg. \<not> ContainsString (baseImageSystemPackages E) pkg)
               else packages)
        in Inr (''RUN --mount=type=cache,target=/var/cache/apt,sharing=locked apt-get update -qq && apt-get install -qqy ''
                @ Join packages '' ''
                @ '' && rm -rf /var/lib/apt/lists/*''))"

definition secretMounts :: "Mount list \<Rightarrow> string list" where
  "secretMounts ms =
     foldl (\<lambda>mounts mount.
              if Type mount = ''secret''
              then mounts @ [''--mount=type=secret,id='' @ ID mount @ '',target='' @ Target mount]
              else mounts) [] ms"

definition multilineMessage :: "string \<Rightarrow> string" where
  \<open>multilineMessage command =
       ''One of the commands in 'run' contains a new line, which won't work. You need to create a new list item in YAML prefixed with '-' for each command.'' @ [NL] @
       [NL] @
       ''This is the offending line: '' @ command\<close>

text \<open>The loop of \<open>runCommands\<close> over the run items, \<open>lines\<close> being what it has built.\<close>

fun runLines :: "RunItem list \<Rightarrow> string list \<Rightarrow> error + string list" where
  "runLines [] lines = Inr lines"
| "runLines (run # rest) lines =
     (let command = TrimSpace (Command run) in
      if Contains_nl command then Inl (Error (multilineMessage command))
      else if 0 < length (Mounts run)
        then runLines rest (lines @ [''RUN '' @ Join (secretMounts (Mounts run)) '' '' @ '' '' @ command])
        else runLines rest (lines @ [''RUN '' @ command]))"

definition runCommands :: "'w Generator \<Rightarrow> error + string" where
  "runCommands g =
     (let runCommands' =
            foldl (\<lambda>rc command. rc @ [\<lparr>Command = command, Mounts = []\<rparr>])
              (Run (Build (Config g))) (PreInstall (Build (Config g)))
      in case runLines runCommands' [] of
           Inl err \<Rightarrow> Inl err
         | Inr lines \<Rightarrow> Inr (Join lines [NL]))"

subsection \<open>Staged files and the dependency install\<close>

definition writeTemp ::
  "'w collaborators \<Rightarrow> 'w Generator \<Rightarrow> string \<Rightarrow> string \<Rightarrow> error + (string list \<times> string)" where
  "writeTemp E g filename contents =
     (let path = pathJoin [tmpDir g, filename] in
      case MkdirAll E (pathDir path) of
        Some err \<Rightarrow> Inl (Error (''Failed to write '' @ filename @ '': '' @ message err))
      | None \<Rightarrow>
          (case WriteFile E path contents of
             Some err \<Rightarrow> Inl (Error (''Failed to write '' @ filename @ '': '' @ message err))
           | None \<Rightarrow>
               Inr ([''COPY '' @ pathJoin [relativeTmpDir g, filename] @ '' /tmp/'' @ filename],
                    ''/tmp/'' @ filename)))"

definition installCog :: "'w collaborators \<Rightarrow> 'w Generator \<Rightarrow> error + string" where
  "installCog E g =
     (let cogFilename = ''cog-0.0.1.dev-py3-none-any.whl'' in
      case writeTemp E g cogFilename (cogWheelEmbed E) of
        Inl err \<Rightarrow> Inl err
      | Inr (lines, containerPath) \<Rightarrow>
          Inr (Join (lines @ [''RUN --mount=type=cache,target=/root/.cache/pip pip install -t /dep ''
                               @ containerPath]) [NL]))"

text \<open>
  \<open>pipInstalls\<close> and \<open>pipInstallStage\<close> store the requirements text in the generator
  before they look at the error, so they return the generator as well.
\<close>

definition pipInstalls ::
  "'w collaborators \<Rightarrow> 'w Generator \<Rightarrow> (error + string) \<times> 'w Generator" where
  "pipInstalls E g =
     (let excludePackages = [];
          excludePackages =
            (case TorchVersion E (Config g) of
               (torch, ok) \<Rightarrow> if ok then [''torch=='' @ torch] else excludePackages);
          excludePackages =
            (case TorchvisionVersion E (Config g) of
               (torchvision, ok) \<Rightarrow>
                 if ok then excludePackages @ [''torchvision=='' @ torchvision] else excludePackages);
          (contents, err) = PythonRequirementsForArch E (Config g) (GOOS g) (GOARCH g) excludePackages;
          g = g\<lparr>pythonRequirementsContents := contents\<rparr>
      in case err of
           Some e \<Rightarrow> (Inl e, g)
         | None \<Rightarrow>
             if Trim (pythonRequirementsContents g) [] = [] then (Inr [], g)
             else (case writeTemp E g ''requirements.txt'' (pythonRequirementsContents g) of
                     Inl e \<Rightarrow> (Inl e, g)
                   | Inr (copyLine, containerPath) \<Rightarrow>
                       (Inr (Join [copyLine ! 0, ''RUN pip install -r '' @ containerPath] [NL]), g)))"

definition pipInstallStage ::
  "'w collaborators \<Rightarrow> 'w Generator \<Rightarrow> (error + string) \<times> 'w Generator" where
  "pipInstallStage E g =
     (case installCog E g of
        Inl err \<Rightarrow> (Inl err, g)
      | Inr installCog' \<Rightarrow>
          let (contents, err) = PythonRequirementsForArch E (Config g) (GOOS g) (GOARCH g) [];
              g = g\<lparr>pythonRequirementsContents := contents\<rparr>
          in case err of
               Some e \<Rightarrow> (Inl e, g)
             | None \<Rightarrow>
                 let pipStageImage = ''python:'' @ PythonVersion (Build (Config g)) in
                 if Trim (pythonRequirementsContents g) [] = []
                 then (Inr (''FROM '' @ pipStageImage @ '' as deps'' @ [NL] @ installCog'), g)
                 else (case writeTemp E g ''requirements.txt'' (pythonRequirementsContents g) of
                         Inl e \<Rightarrow> (Inl e, g)
                       | Inr (copyLine, containerPath) \<Rightarrow>
                           let fromLine = ''FROM '' @ pipStageImage @ '' as deps'';
                               buildStageDeps = Getenv E ''COG_EXPERIMENTAL_BUILD_STAGE_DEPS'';
                               fromLine = (if buildStageDeps \<noteq> []
                                           then fromLine @ [NL] @ ''RUN '' @ buildStageDeps
                                           else fromLine);
                               lines = [fromLine, installCog', copyLine ! 0,
                                        ''RUN --mount=type=cache,target=/root/.cache/pip pip install -t /dep -r ''
                                          @ containerPath]
                           in (Inr (Join lines [NL]), g)))"

subsection \<open>Assembling the plan\<close>

definition generateInitialSteps ::
  "'w collaborators \<Rightarrow> 'w Generator \<Rightarrow> (error + string) \<times> 'w Generator" where
  "generateInitialSteps E g =
     (case BaseImage E g of
        Inl err \<Rightarrow> (Inl err, g)
      | Inr baseImage \<Rightarrow>
     (case installPython g of
        Inl err \<Rightarrow> (Inl err, g)
      | Inr installPython' \<Rightarrow>
     (case aptInstalls E g of
        Inl err \<Rightarrow> (Inl err, g)
      | Inr aptInstalls' \<Rightarrow>
     (case runCommands g of
        Inl err \<Rightarrow> (Inl err, g)
      | Inr runCommands' \<Rightarrow>
          if useCogBaseImage g then
            (case pipInstalls E g of
               (Inl err, g') \<Rightarrow> (Inl err, g')
             | (Inr pipInstalls', g') \<Rightarrow>
                 (Inr (joinStringsWithoutLineSpace
                         [''#syntax=docker/dockerfile:1.4'',
                          ''FROM '' @ baseImage,
                          aptInstalls',
                          pipInstalls',
                          runCommands']), g'))
          else
            (case pipInstallStage E g of
               (Inl err, g') \<Rightarrow> (Inl err, g')
             | (Inr pipInstallStage', g') \<Rightarrow>
                 (Inr (joinStringsWithoutLineSpace
                         [''#syntax=docker/dockerfile:1.4'',
                          pipInstallStage',
                          ''FROM '' @ baseImage,
                          preamble,
                          installTini,
                          installPython',
                          aptInstalls',
                          copyPipPackagesFromInstallStage g',
                          runCommands']), g'))))))"

definition GenerateModelBase ::
  "'w collaborators \<Rightarrow> 'w Generator \<Rightarrow> (error + string) \<times> 'w Generator" where
  \<open>GenerateModelBase E g =
     (case generateInitialSteps E g of
        (Inl err, g') \<Rightarrow> (Inl err, g')
      | (Inr initialSteps, g') \<Rightarrow>
          (Inr (Join [initialSteps,
                      ''WORKDIR /src'',
                      ''EXPOSE 5000'',
                      ''CMD ["python", "-m", "cog.server.http"]''] [NL]), g'))\<close>

definition GenerateDockerfileWithoutSeparateWeights ::
  "'w collaborators \<Rightarrow> 'w Generator \<Rightarrow> (error + string) \<times> 'w Generator" where
  "GenerateDockerfileWithoutSeparateWeights E g =
     (case GenerateModelBase E g of
        (Inl err, g') \<Rightarrow> (Inl err, g')
      | (Inr base, g') \<Rightarrow> (Inr (joinStringsWithoutLineSpace [base, ''COPY . /src'']), g'))"

subsection \<open>Weights in a stage of their own\<close>

definition generateForWeights ::
  "'w collaborators \<Rightarrow> 'w Generator \<Rightarrow> error + (string \<times> string list \<times> string list)" where
  "generateForWeights E g =
     (case FindWeights E (fileWalker g) of
        Inl err \<Rightarrow> Inl err
      | Inr (modelDirs', modelFiles') \<Rightarrow>
          let dockerfileContents = ''#syntax=docker/dockerfile:1.4'' @ [NL] @ ''FROM scratch'' @ [NL];
              dockerfileContents =
                foldl (\<lambda>contents p. contents @ [NL] @ ''COPY '' @ p @ '' '' @ pathJoin [''/src'', p])
                  dockerfileContents (modelDirs' @ modelFiles')
          in Inr (dockerfileContents, modelDirs', modelFiles'))"

text \<open>
  The loop that puts the weights stage before the first line starting with \<open>FROM\<close>;
  \<open>base\<close> is what it has built, the third argument the lines still to visit.
\<close>

fun injectWeightsStage :: "string \<Rightarrow> string list \<Rightarrow> string list \<Rightarrow> string list" where
  "injectWeightsStage imageName base [] = base"
| "injectWeightsStage imageName base (line # rest) =
     (if HasPrefix line ''FROM ''
      then (base @ [''FROM '' @ (imageName @ ''-weights'') @ '' AS '' @ ''weights'']) @ (line # rest)
      else injectWeightsStage imageName (base @ [line]) rest)"

text \<open>
  On success the result is the weights stage, the plan and the ignore text. When the
  weight finder fails, the two lists of the generator have been set to \<open>nil\<close>.
\<close>

definition GenerateModelBaseWithSeparateWeights ::
  "'w collaborators \<Rightarrow> string \<Rightarrow> 'w Generator
     \<Rightarrow> (error + (string \<times> string \<times> string)) \<times> 'w Generator" where
  \<open>GenerateModelBaseWithSeparateWeights E imageName g =
     (case generateForWeights E g of
        Inl err \<Rightarrow>
          (Inl (Error (''Failed to generate Dockerfile for model weights files: '' @ message err)),
           g\<lparr>modelDirs := [], modelFiles := []\<rparr>)
      | Inr (weightsBase, modelDirs', modelFiles') \<Rightarrow>
          let g = g\<lparr>modelDirs := modelDirs', modelFiles := modelFiles'\<rparr> in
          (case generateInitialSteps E g of
             (Inl err, g) \<Rightarrow> (Inl err, g)
           | (Inr initialSteps, g) \<Rightarrow>
               let initialStepsLines = Split initialSteps NL;
                   base = injectWeightsStage imageName [] initialStepsLines;
                   base = foldl (\<lambda>base p. base @ [''COPY --from=weights --link '' @ pathJoin [''/src'', p]
                                                      @ '' '' @ pathJoin [''/src'', p]])
                            base (modelDirs g @ modelFiles g);
                   base = base @ [''WORKDIR /src'',
                                  ''EXPOSE 5000'',
                                  ''CMD ["python", "-m", "cog.server.http"]'',
                                  ''COPY . /src''];
                   dockerignoreContents = makeDockerignoreForWeights (modelDirs g) (modelFiles g)
               in (Inr (weightsBase, joinStringsWithoutLineSpace base, dockerignoreContents), g)))\<close>

section \<open>Reading a plan, and sample inputs\<close>

text \<open>The lines of a plan, or no line when the generation failed.\<close>

definition planLines :: "(error + string) \<times> 'w Generator \<Rightarrow> string list" where
  "planLines r = (case fst r of Inl err \<Rightarrow> [] | Inr dockerfile \<Rightarrow> Split dockerfile NL)"

definition weightsPlanLines ::
  "(error + (string \<times> string \<times> string)) \<times> 'w Generator \<Rightarrow> string list" where
  "weightsPlanLines r =
     (case fst r of Inl err \<Rightarrow> [] | Inr (weightsBase, dockerfile, ignore) \<Rightarrow> Split dockerfile NL)"

text \<open>
  A line is an apt install instruction when it starts the way the instruction of
  \<open>aptInstalls\<close> does.
\<close>

definition isAptInstall :: "string \<Rightarrow> bool" where
  "isAptInstall line =
     HasPrefix line
       ''RUN --mount=type=cache,target=/var/cache/apt,sharing=locked apt-get update -qq && apt-get install -qqy ''"

text \<open>
  Sample collaborators: a matrix that accepts every triple, no pinned tensor library,
  no requirements, a file system on which every call succeeds, and a weight finder
  that finds the directory \<open>weights\<close> and the file \<open>a.bin\<close>.
\<close>

definition sample_collaborators :: "unit collaborators" where
  "sample_collaborators =
     \<lparr>NewVersion = semverNewVersion,
      TorchVersion = (\<lambda>c. ([], False)),
      TorchvisionVersion = (\<lambda>c. ([], False)),
      PythonRequirementsForArch = (\<lambda>c os arch exclude. ([], None)),
      CUDABaseImageTag = (\<lambda>c. Inr ''nvidia/cuda:11.8.0-cudnn8-devel-ubuntu22.04''),
      NewBaseImageGenerator =
        (\<lambda>c p t. Inr \<lparr>cudaVersion = c, pythonVersion = p, torchVersion = t\<rparr>),
      BaseImageName = (\<lambda>c p t. ''r8.im/cog-base:cuda'' @ c @ ''-python'' @ p @ ''-torch'' @ t),
      baseImageSystemPackages = [],
      FindWeights = (\<lambda>w. Inr ([''weights''], [''a.bin''])),
      cogWheelEmbed = [],
      Getenv = (\<lambda>k. []),
      MkdirAll = (\<lambda>p. None),
      WriteFile = (\<lambda>p c. None),
      MkdirTemp = (\<lambda>d p. Inr (d @ ''/'' @ p @ ''1'')),
      Rel = (\<lambda>b t. Inr (drop (length b + 1) t)),
      NowFormat = (\<lambda>l. ''20240620123456.000000''),
      runtime_GOOS = ''linux'',
      runtime_GOARCH = ''amd64'',
      filepath_Walk = ()\<rparr>"


text \<open>The same, with a weight file whose path has a line break in it.\<close>

definition linebreak_collaborators :: "unit collaborators" where
  "linebreak_collaborators =
     sample_collaborators\<lparr>FindWeights := (\<lambda>w. Inr ([], [''w'' @ [NL] @ ''COPY . /src'']))\<rparr>"

definition sample_config :: Config where
  "sample_config =
     \<lparr>Build = \<lparr>GPU = False, CUDA = [], PythonVersion = ''3.10.5'', SystemPackages = [],
                Run = [\<lparr>Command = '' echo hi '', Mounts = []\<rparr>], PreInstall = []\<rparr>\<rparr>"

definition gpu_config :: Config where
  "gpu_config =
     \<lparr>Build = \<lparr>GPU = True, CUDA = ''11.8'', PythonVersion = ''3.10'', SystemPackages = [],
                Run = [], PreInstall = []\<rparr>\<rparr>"

definition multiline_config :: Config where
  "multiline_config =
     \<lparr>Build = \<lparr>GPU = False, CUDA = [], PythonVersion = ''3.10'', SystemPackages = [],
                Run = [\<lparr>Command = ''echo ok'', Mounts = []\<rparr>,
                       \<lparr>Command = '' echo a'' @ [NL] @ ''echo b '', Mounts = []\<rparr>],
                PreInstall = []\<rparr>\<rparr>"

definition sample_generator :: "Config \<Rightarrow> unit Generator" where
  "sample_generator config =
     \<lparr>Config = config, Dir = ''/proj'', GOOS = ''linux'', GOARCH = ''linux'',
      useCudaBaseImage = True, useCogBaseImage = False,
      tmpDir = ''/proj/.cog/tmp/build1'', relativeTmpDir = ''.cog/tmp/build1'',
      fileWalker = (), modelDirs = [], modelFiles = [], pythonRequirementsContents = []\<rparr>"

subsection \<open>The fixed fragments, line by line\<close>

definition preamble_lines :: "string list" where
  "preamble_lines =
     [''ENV DEBIAN_FRONTEND=noninteractive'',
       ''ENV PYTHONUNBUFFERED=1'',
       ''ENV LD_LIBRARY_PATH=$LD_LIBRARY_PATH:/usr/lib/x86_64-linux-gnu:/usr/local/nvidia/lib64:/usr/local/nvidia/bin'',
       ''ENV NVIDIA_DRIVER_CAPABILITIES=all'']"

definition installTini_lines :: "string list" where
  \<open>installTini_lines =
     [''RUN --mount=type=cache,target=/var/cache/apt,sharing=locked set -eux; '' @ [BSL],
       ''apt-get update -qq && '' @ [BSL],
       ''apt-get install -qqy --no-install-recommends curl; '' @ [BSL],
       ''rm -rf /var/lib/apt/lists/*; '' @ [BSL],
       ''TINI_VERSION=v0.19.0; '' @ [BSL],
       ''TINI_ARCH="$(dpkg --print-architecture)"; '' @ [BSL],
       ''curl -sSL -o /sbin/tini "https://github.com/krallin/tini/releases/download/${TINI_VERSION}/tini-${TINI_ARCH}"; '' @ [BSL],
       ''chmod +x /sbin/tini'',
       ''ENTRYPOINT ["/sbin/tini", "--"]'']\<close>

definition installPythonCUDA_lines :: "string \<Rightarrow> string list" where
  \<open>installPythonCUDA_lines py =
     [''ENV PATH="/root/.pyenv/shims:/root/.pyenv/bin:$PATH"'',
       ''RUN --mount=type=cache,target=/var/cache/apt,sharing=locked apt-get update -qq && apt-get install -qqy --no-install-recommends '' @ [BSL],
       [TAB] @ ''make '' @ [BSL],
       [TAB] @ ''build-essential '' @ [BSL],
       [TAB] @ ''libssl-dev '' @ [BSL],
       [TAB] @ ''zlib1g-dev '' @ [BSL],
       [TAB] @ ''libbz2-dev '' @ [BSL],
       [TAB] @ ''libreadline-dev '' @ [BSL],
       [TAB] @ ''libsqlite3-dev '' @ [BSL],
       [TAB] @ ''wget '' @ [BSL],
       [TAB] @ ''curl '' @ [BSL],
       [TAB] @ ''llvm '' @ [BSL],
       [TAB] @ ''libncurses5-dev '' @ [BSL],
       [TAB] @ ''libncursesw5-dev '' @ [BSL],
       [TAB] @ ''xz-utils '' @ [BSL],
       [TAB] @ ''tk-dev '' @ [BSL],
       [TAB] @ ''libffi-dev '' @ [BSL],
       [TAB] @ ''liblzma-dev '' @ [BSL],
       [TAB] @ ''git '' @ [BSL],
       [TAB] @ ''ca-certificates '' @ [BSL],
       [TAB] @ ''&& rm -rf /var/lib/apt/lists/*'',
       ''RUN curl -s -S -L https://raw.githubusercontent.com/pyenv/pyenv-installer/master/bin/pyenv-installer | bash && '' @ [BSL],
       [TAB] @ ''git clone https://github.com/momo-lab/pyenv-install-latest.git "$(pyenv root)"/plugins/pyenv-install-latest && '' @ [BSL],
       [TAB] @ ''pyenv install-latest "'' @ py @ ''" && '' @ [BSL],
       [TAB] @ ''pyenv global $(pyenv install-latest --print "'' @ py @ ''") && '' @ [BSL],
       [TAB] @ ''pip install "wheel<1"'']\<close>

definition copyPipPackages_lines :: "string list" where
  "copyPipPackages_lines =
     [[],
       ''RUN --mount=type=bind,from=deps,source=/dep,target=/dep '' @ [BSL],
       ''    cp -rf /dep/* $(pyenv prefix)/lib/python*/site-packages; '' @ [BSL],
       ''    cp -rf /dep/bin/* $(pyenv prefix)/bin; '' @ [BSL],
       ''    pyenv rehash'',
       []]"

text \<open>The instruction that the loop of \<open>runCommands\<close> adds for one run item.\<close>

definition runLine :: "RunItem \<Rightarrow> string" where
  "runLine run =
     (let command = TrimSpace (Command run) in
      if 0 < length (Mounts run)
      then ''RUN '' @ Join (secretMounts (Mounts run)) '' '' @ '' '' @ command
      else ''RUN '' @ command)"

text \<open>
  No line break in the strings that end up in the plan: the image name, the weight
  paths, the runtime version, the system packages, the ids and targets of the mounts,
  the base image, the relative scratch directory and the extra build-stage command.
\<close>

definition lineBreakFree :: "'w collaborators \<Rightarrow> string \<Rightarrow> 'w Generator \<Rightarrow> bool" where
  "lineBreakFree E imageName g =
     (NL \<notin> set imageName
      \<and> (case FindWeights E (fileWalker g) of
             Inl err \<Rightarrow> True
           | Inr (dirs, files) \<Rightarrow> list_all (\<lambda>p. NL \<notin> set p) (dirs @ files))
      \<and> NL \<notin> set (PythonVersion (Build (Config g)))
      \<and> list_all (\<lambda>p. NL \<notin> set p) (SystemPackages (Build (Config g)))
      \<and> list_all (\<lambda>r. list_all (\<lambda>m. NL \<notin> set (ID m) \<and> NL \<notin> set (Target m)) (Mounts r))
            (Run (Build (Config g)))
      \<and> (case BaseImage E g of Inl err \<Rightarrow> True | Inr name \<Rightarrow> NL \<notin> set name)
      \<and> NL \<notin> set (relativeTmpDir g)
      \<and> NL \<notin> set (Getenv E ''COG_EXPERIMENTAL_BUILD_STAGE_DEPS''))"

section \<open>Lemmas on splitting and joining\<close>

lemma Split_not_Nil: "Split s sep \<noteq> []"
  by (induction s) (auto split: list.splits)

lemma Split_no_sep: "l \<in> set (Split s sep) \<Longrightarrow> sep \<notin> set l"
proof (induction s arbitrary: l)
  case Nil
  then show ?case by simp
next
  case (Cons c cs)
  obtain h t where ht: "Split cs sep = h # t"
    using Split_not_Nil [of cs sep] by (cases "Split cs sep") auto
  show ?case
  proof (cases "c = sep")
    case True
    with Cons show ?thesis by auto
  next
    case False
    with Cons.prems ht have "l = c # h \<or> l \<in> set t" by auto
    then show ?thesis
    proof
      assume "l = c # h"
      moreover have "sep \<notin> set h" using Cons.IH [of h] ht by simp
      ultimately show ?thesis using False by auto
    next
      assume "l \<in> set t"
      then show ?thesis using Cons.IH [of l] ht by simp
    qed
  qed
qed

lemma Split_sep_free: "sep \<notin> set s \<Longrightarrow> Split s sep = [s]"
  by (induction s) auto

lemma Split_append_sep:
  "sep \<notin> set a \<Longrightarrow> Split (a @ sep # b) sep = a # Split b sep"
  by (induction a) auto

lemma Split_Join:
  "ls \<noteq> [] \<Longrightarrow> \<forall>l \<in> set ls. sep \<notin> set l \<Longrightarrow> Split (Join ls [sep]) sep = ls"
proof (induction ls "[sep]" rule: Join.induct)
  case 1
  then show ?case by simp
next
  case (2 x)
  then show ?case by (simp add: Split_sep_free)
next
  case (3 x y ys)
  then show ?case by (simp add: Split_append_sep)
qed

lemma Join_Split: "Join (Split s sep) [sep] = s"
proof (induction s)
  case Nil
  then show ?case by simp
next
  case (Cons c cs)
  obtain h t where ht: "Split cs sep = h # t"
    using Split_not_Nil [of cs sep] by (cases "Split cs sep") auto
  show ?case
  proof (cases "c = sep")
    case True
    with Cons ht show ?thesis by simp
  next
    case False
    with Cons ht show ?thesis by (cases t) auto
  qed
qed

lemma filterEmpty_filter: "filterEmpty ls = filter (\<lambda>s. s \<noteq> []) ls"
  by (induction ls) auto

lemma foldl_append_lines:
  "foldl (\<lambda>lines chunk. lines @ f chunk) acc chunks = acc @ concat (map f chunks)"
  by (induction chunks arbitrary: acc) auto

lemma joinStringsWithoutLineSpace_lines:
  "joinStringsWithoutLineSpace chunks =
     Join (filter (\<lambda>s. s \<noteq> []) (concat (map (\<lambda>chunk. Split chunk NL) chunks))) [NL]"
  by (simp add: joinStringsWithoutLineSpace_def filterEmpty_filter foldl_append_lines)

lemma Split_Join_lines:
  assumes "\<forall>l \<in> set ls. NL \<notin> set l"
  shows "filter (\<lambda>s. s \<noteq> []) (Split (Join ls [NL]) NL) = filter (\<lambda>s. s \<noteq> []) ls"
proof (cases "ls = []")
  case True
  then show ?thesis by simp
next
  case False
  with assms show ?thesis by (simp add: Split_Join)
qed

lemma Split_joinStringsWithoutLineSpace:
  "filter (\<lambda>s. s \<noteq> []) (Split (joinStringsWithoutLineSpace chunks) NL) =
     filter (\<lambda>s. s \<noteq> []) (concat (map (\<lambda>chunk. Split chunk NL) chunks))"
proof -
  let ?ls = "filter (\<lambda>s. s \<noteq> []) (concat (map (\<lambda>chunk. Split chunk NL) chunks))"
  have "\<forall>l \<in> set ?ls. NL \<notin> set l"
    by (auto dest: Split_no_sep)
  from Split_Join_lines [OF this] show ?thesis
    by (simp add: joinStringsWithoutLineSpace_lines)
qed

section \<open>Lemmas on the generator\<close>

lemmas sample_defs = sample_collaborators_def sample_generator_def sample_config_def gpu_config_def
  SetUseCogBaseImage_def



lemma preInstall_loop:
  "foldl (\<lambda>rc command. rc @ [\<lparr>Command = command, Mounts = []\<rparr>]) rs cs =
     rs @ map (\<lambda>command. \<lparr>Command = command, Mounts = []\<rparr>) cs"
  by (induction cs arbitrary: rs) auto

lemma runLines_first_multiline:
  "find (\<lambda>r. Contains_nl (TrimSpace (Command r))) rs = Some r \<Longrightarrow>
     runLines rs lines = Inl (Error (multilineMessage (TrimSpace (Command r))))"
  by (induction rs arbitrary: lines) (auto simp: Let_def)

lemma runCommands_first_multiline:
  assumes "find (\<lambda>r. Contains_nl (TrimSpace (Command r)))
             (Run (Build (Config g))
                @ map (\<lambda>command. \<lparr>Command = command, Mounts = []\<rparr>) (PreInstall (Build (Config g))))
           = Some r"
  shows "runCommands g = Inl (Error (multilineMessage (TrimSpace (Command r))))"
  using runLines_first_multiline [OF assms, of "[]"]
  by (simp add: runCommands_def preInstall_loop)

lemma generateInitialSteps_runCommands_error:
  "runCommands g = Inl err \<Longrightarrow> \<exists>e. generateInitialSteps E g = (Inl e, g)"
  by (simp add: generateInitialSteps_def split: sum.splits)

lemma runCommands_config:
  "Config g' = Config g \<Longrightarrow> runCommands g' = runCommands g"
  by (simp add: runCommands_def)

lemma runLines_no_multiline:
  "\<forall>r \<in> set rs. \<not> Contains_nl (TrimSpace (Command r)) \<Longrightarrow>
     runLines rs lines = Inr (lines @ map runLine rs)"
  by (induction rs arbitrary: lines) (auto simp: Let_def runLine_def)

lemma runCommands_no_multiline:
  assumes "\<forall>r \<in> set (Run (Build (Config g))
                     @ map (\<lambda>command. \<lparr>Command = command, Mounts = []\<rparr>)
                         (PreInstall (Build (Config g)))).
             \<not> Contains_nl (TrimSpace (Command r))"
  shows "runCommands g =
           Inr (Join (map runLine
                  (Run (Build (Config g))
                     @ map (\<lambda>command. \<lparr>Command = command, Mounts = []\<rparr>)
                         (PreInstall (Build (Config g))))) [NL])"
  using runLines_no_multiline [OF assms, of "[]"]
  by (simp add: runCommands_def preInstall_loop)

lemma runCommands_multiline_fails:
  assumes "r \<in> set (Run (Build (Config g))
                     @ map (\<lambda>command. \<lparr>Command = command, Mounts = []\<rparr>)
                         (PreInstall (Build (Config g))))"
      and "Contains_nl (TrimSpace (Command r))"
  shows "\<exists>first.
           find (\<lambda>r. Contains_nl (TrimSpace (Command r)))
             (Run (Build (Config g))
                @ map (\<lambda>command. \<lparr>Command = command, Mounts = []\<rparr>)
                    (PreInstall (Build (Config g)))) = Some first
         \<and> runCommands g = Inl (Error (multilineMessage (TrimSpace (Command first))))
         \<and> HasSuffix (multilineMessage (TrimSpace (Command first))) (TrimSpace (Command first))
         \<and> (\<exists>err. generateInitialSteps E g = (Inl err, g))
         \<and> (\<exists>err. GenerateModelBase E g = (Inl err, g))
         \<and> (\<exists>err. GenerateDockerfileWithoutSeparateWeights E g = (Inl err, g))
         \<and> (\<exists>err. fst (GenerateModelBaseWithSeparateWeights E imageName g) = Inl err)"
proof -
  let ?all = "Run (Build (Config g))
                @ map (\<lambda>command. \<lparr>Command = command, Mounts = []\<rparr>)
                    (PreInstall (Build (Config g)))"
  from assms obtain first
    where first: "find (\<lambda>r. Contains_nl (TrimSpace (Command r))) ?all = Some first"
    by (cases "find (\<lambda>r. Contains_nl (TrimSpace (Command r))) ?all")
       (auto simp: find_None_iff)
  from runCommands_first_multiline [OF first]
  have run: "runCommands g = Inl (Error (multilineMessage (TrimSpace (Command first))))" .
  have suffix: "HasSuffix (multilineMessage (TrimSpace (Command first))) (TrimSpace (Command first))"
    by (simp add: HasSuffix_def multilineMessage_def)
  from generateInitialSteps_runCommands_error [OF run]
  obtain e where init: "generateInitialSteps E g = (Inl e, g)" by blast
  then have base: "GenerateModelBase E g = (Inl e, g)"
    by (simp add: GenerateModelBase_def)
  then have whole: "GenerateDockerfileWithoutSeparateWeights E g = (Inl e, g)"
    by (simp add: GenerateDockerfileWithoutSeparateWeights_def)
  have split: "\<exists>err. fst (GenerateModelBaseWithSeparateWeights E imageName g) = Inl err"
  proof (cases "generateForWeights E g")
    case (Inl err)
    then show ?thesis by (simp add: GenerateModelBaseWithSeparateWeights_def)
  next
    case (Inr found)
    obtain weightsBase dirs files where found: "found = (weightsBase, dirs, files)"
      by (cases found)
    have "runCommands (g\<lparr>modelDirs := dirs, modelFiles := files\<rparr>) = runCommands g"
      by (rule runCommands_config) simp
    with run generateInitialSteps_runCommands_error
      [of "g\<lparr>modelDirs := dirs, modelFiles := files\<rparr>" _ E]
    obtain e' where "generateInitialSteps E (g\<lparr>modelDirs := dirs, modelFiles := files\<rparr>) =
        (Inl e', g\<lparr>modelDirs := dirs, modelFiles := files\<rparr>)"
      by auto
    with Inr found show ?thesis
      by (simp add: GenerateModelBaseWithSeparateWeights_def)
  qed
  from first run suffix init base whole split show ?thesis by blast
qed

section \<open>Lemmas on the lines of a plan\<close>

lemma Split_joinStringsWithoutLineSpace_nonempty:
  assumes "filter (\<lambda>s. s \<noteq> []) (concat (map (\<lambda>chunk. Split chunk NL) chunks)) \<noteq> []"
  shows "Split (joinStringsWithoutLineSpace chunks) NL =
           filter (\<lambda>s. s \<noteq> []) (concat (map (\<lambda>chunk. Split chunk NL) chunks))"
proof -
  let ?ls = "filter (\<lambda>s. s \<noteq> []) (concat (map (\<lambda>chunk. Split chunk NL) chunks))"
  have "\<forall>l \<in> set ?ls. NL \<notin> set l"
    by (auto dest: Split_no_sep)
  with assms have "Split (Join ?ls [NL]) NL = ?ls"
    by (rule Split_Join)
  then show ?thesis
    by (simp add: joinStringsWithoutLineSpace_lines)
qed

lemma Split_line: "l \<in> set (Split s sep) \<Longrightarrow> Split l sep = [l]"
  by (rule Split_sep_free) (rule Split_no_sep)

lemma concat_Split_lines:
  "\<forall>l \<in> set ls. NL \<notin> set l \<Longrightarrow> concat (map (\<lambda>chunk. Split chunk NL) ls) = ls"
  by (induction ls) (auto simp: Split_sep_free)

lemma injectWeightsStage_base:
  "injectWeightsStage imageName base ls = base @ injectWeightsStage imageName [] ls"
proof (induction ls arbitrary: base)
  case Nil
  then show ?case by simp
next
  case (Cons l ls)
  from Cons [of "base @ [l]"] Cons [of "[l]"] show ?case by simp
qed

lemma injectWeightsStage_set:
  "set (injectWeightsStage imageName [] ls) \<subseteq>
     insert (''FROM '' @ (imageName @ ''-weights'') @ '' AS '' @ ''weights'') (set ls)"
proof (induction ls)
  case Nil
  then show ?case by simp
next
  case (Cons l ls)
  show ?case
  proof (cases "HasPrefix l ''FROM ''")
    case True
    then show ?thesis by auto
  next
    case False
    then have "injectWeightsStage imageName [] (l # ls) = l # injectWeightsStage imageName [] ls"
      using injectWeightsStage_base [of imageName "[l]" ls] by simp
    with Cons show ?thesis by auto
  qed
qed

lemma weight_copy_loop:
  "foldl (\<lambda>base p. base @ [f p]) base ps = base @ map f ps"
  by (induction ps arbitrary: base) auto

lemma pipInstalls_keeps:
  "pipInstalls E g = (r, g') \<Longrightarrow>
     \<exists>c. g' = g\<lparr>pythonRequirementsContents := c\<rparr>"
  by (auto simp: pipInstalls_def Let_def split: prod.splits option.splits if_splits sum.splits)

lemma pipInstallStage_keeps:
  "pipInstallStage E g = (r, g') \<Longrightarrow>
     g' = g \<or> (\<exists>c. g' = g\<lparr>pythonRequirementsContents := c\<rparr>)"
  by (auto simp: pipInstallStage_def Let_def split: prod.splits option.splits if_splits sum.splits)

lemma generateInitialSteps_keeps:
  assumes "generateInitialSteps E g = (r, g')"
  shows "g' = g \<or> (\<exists>c. g' = g\<lparr>pythonRequirementsContents := c\<rparr>)"
proof (cases "useCogBaseImage g")
  case True
  with assms pipInstalls_keeps [of E g] show ?thesis
    by (auto simp: generateInitialSteps_def split: sum.splits prod.splits)
next
  case False
  with assms pipInstallStage_keeps [of E g] show ?thesis
    by (auto simp: generateInitialSteps_def split: sum.splits prod.splits)
qed

lemma generateInitialSteps_syntax_first:
  assumes "generateInitialSteps E g = (Inr initialSteps, g')"
  shows "\<exists>rest. initialSteps = joinStringsWithoutLineSpace (''#syntax=docker/dockerfile:1.4'' # rest)"
  using assms
  by (auto simp: generateInitialSteps_def split: sum.splits prod.splits if_splits)

lemma initialSteps_lines:
  assumes "generateInitialSteps E g = (Inr initialSteps, g')"
  shows "Split initialSteps NL \<noteq> []"
    and "\<forall>l \<in> set (Split initialSteps NL). l \<noteq> [] \<and> NL \<notin> set l"
proof -
  from generateInitialSteps_syntax_first [OF assms] obtain rest
    where I: "initialSteps = joinStringsWithoutLineSpace (''#syntax=docker/dockerfile:1.4'' # rest)"
    by blast
  have "filter (\<lambda>s. s \<noteq> [])
          (concat (map (\<lambda>chunk. Split chunk NL) (''#syntax=docker/dockerfile:1.4'' # rest))) \<noteq> []"
    by simp
  from Split_joinStringsWithoutLineSpace_nonempty [OF this] I
  have eq: "Split initialSteps NL =
      filter (\<lambda>s. s \<noteq> [])
          (concat (map (\<lambda>chunk. Split chunk NL) (''#syntax=docker/dockerfile:1.4'' # rest)))"
    by simp
  show "Split initialSteps NL \<noteq> []" by (rule Split_not_Nil)
  show "\<forall>l \<in> set (Split initialSteps NL). l \<noteq> [] \<and> NL \<notin> set l"
    unfolding eq by (auto dest: Split_no_sep)
qed

lemma Split_chars: "l \<in> set (Split s sep) \<Longrightarrow> set l \<subseteq> set s"
proof (induction s arbitrary: l)
  case Nil
  then show ?case by simp
next
  case (Cons c cs)
  obtain h t where ht: "Split cs sep = h # t"
    using Split_not_Nil [of cs sep] by (cases "Split cs sep") auto
  with Cons.prems have "l = [] \<or> l = c # h \<or> l \<in> set (Split cs sep)"
    by (auto split: if_splits)
  with Cons.IH [of h] Cons.IH [of l] ht show ?case by auto
qed

lemma Join_chars: "set (Join ls sep) \<subseteq> (\<Union>l \<in> set ls. set l) \<union> set sep"
  by (induction ls sep rule: Join.induct) auto

lemma cleanElems_chars:
  "e \<in> set (cleanElems rooted out es) \<Longrightarrow> e \<in> set out \<union> set es \<union> {''..''}"
proof (induction rooted out es rule: cleanElems.induct)
  case (1 rooted out)
  then show ?case by simp
next
  case (2 rooted out e' es)
  then show ?case
    by (auto split: if_splits list.splits)
qed

lemma Clean_chars: "set (Clean p) \<subseteq> set p \<union> {CHR ''/'', CHR ''.''}"
proof -
  have elems: "set l \<subseteq> set p \<union> {CHR ''.''}"
    if "l \<in> set (cleanElems rooted [] (Split p (CHR ''/'')))" for l rooted
  proof -
    from cleanElems_chars [OF that] have "l \<in> set (Split p (CHR ''/'')) \<or> l = ''..''"
      by auto
    then show ?thesis using Split_chars [of l p "CHR ''/''"] by auto
  qed
  have joined: "set (Join (cleanElems rooted [] (Split p (CHR ''/''))) ''/'')
      \<subseteq> set p \<union> {CHR ''/'', CHR ''.''}" for rooted
    using Join_chars [of "cleanElems rooted [] (Split p (CHR ''/''))" "''/''"] elems [of _ rooted]
    by fastforce
  show ?thesis
    using joined [of True] joined [of False] joined [of "hd p = CHR ''/''"]
    by (auto simp: Clean_def Let_def)
qed

lemma pathJoin_two:
  "a \<noteq> [] \<Longrightarrow> pathJoin [a, b] = Clean (a @ ''/'' @ b)"
  by (simp add: pathJoin_def)

lemma pathJoin_chars: "set (pathJoin [a, b]) \<subseteq> set a \<union> set b \<union> {CHR ''/'', CHR ''.''}"
proof (cases "a = []")
  case True
  then show ?thesis using Clean_chars [of b] by (auto simp: pathJoin_def)
next
  case False
  then show ?thesis using Clean_chars [of "a @ ''/'' @ b"] by (auto simp: pathJoin_two)
qed

lemma pathJoin_no_nl: "NL \<notin> set a \<Longrightarrow> NL \<notin> set b \<Longrightarrow> NL \<notin> set (pathJoin [a, b])"
  using pathJoin_chars [of a b] by auto

lemma generateForWeights_found:
  "generateForWeights E g = Inr (weightsBase, dirs, files) \<Longrightarrow>
     FindWeights E (fileWalker g) = Inr (dirs, files)"
  by (auto simp: generateForWeights_def Let_def split: sum.splits prod.splits)

text \<open>What a successful generation with separate weights went through.\<close>

lemma GenerateModelBaseWithSeparateWeights_success:
  assumes "GenerateModelBaseWithSeparateWeights E imageName g =
             (Inr (weightsBase, dockerfile, ignore), g')"
  shows \<open>\<exists>initialSteps.
      FindWeights E (fileWalker g) = Inr (modelDirs g', modelFiles g')
    \<and> generateInitialSteps E (g\<lparr>modelDirs := modelDirs g', modelFiles := modelFiles g'\<rparr>) =
        (Inr initialSteps, g')
    \<and> dockerfile =
        joinStringsWithoutLineSpace
          ((injectWeightsStage imageName [] (Split initialSteps NL)
            @ map (\<lambda>p. ''COPY --from=weights --link '' @ pathJoin [''/src'', p]
                         @ '' '' @ pathJoin [''/src'', p])
                (modelDirs g' @ modelFiles g'))
           @ [''WORKDIR /src'', ''EXPOSE 5000'', ''CMD ["python", "-m", "cog.server.http"]'',
              ''COPY . /src''])\<close>
proof (cases "generateForWeights E g")
  case (Inl err)
  with assms show ?thesis by (simp add: GenerateModelBaseWithSeparateWeights_def)
next
  case (Inr found)
  obtain wb dirs files where found: "found = (wb, dirs, files)" by (cases found)
  let ?g = "g\<lparr>modelDirs := dirs, modelFiles := files\<rparr>"
  obtain r g1 where init: "generateInitialSteps E ?g = (r, g1)"
    by (cases "generateInitialSteps E ?g")
  show ?thesis
  proof (cases r)
    case (Inl err)
    with assms Inr found init show ?thesis
      by (simp add: GenerateModelBaseWithSeparateWeights_def)
  next
    case steps: (Inr initialSteps)
    from generateInitialSteps_keeps [OF init]
    have dirs: "modelDirs g1 = dirs" and files: "modelFiles g1 = files"
      by auto
    from assms Inr found init steps have g': "g' = g1"
      by (simp add: GenerateModelBaseWithSeparateWeights_def Let_def)
    from assms Inr found init steps
    have plan: \<open>dockerfile =
        joinStringsWithoutLineSpace
          ((injectWeightsStage imageName [] (Split initialSteps NL)
            @ map (\<lambda>p. ''COPY --from=weights --link '' @ pathJoin [''/src'', p]
                         @ '' '' @ pathJoin [''/src'', p])
                (modelDirs g1 @ modelFiles g1))
           @ [''WORKDIR /src'', ''EXPOSE 5000'', ''CMD ["python", "-m", "cog.server.http"]'',
              ''COPY . /src''])\<close>
      by (auto simp add: GenerateModelBaseWithSeparateWeights_def Let_def weight_copy_loop)
    from generateForWeights_found Inr found
    have "FindWeights E (fileWalker g) = Inr (dirs, files)" by blast
    with init steps dirs files g' plan show ?thesis by auto
  qed
qed

lemma plan_lines_final_block:
  \<open>Split (joinStringsWithoutLineSpace
           (base @ [''WORKDIR /src'', ''EXPOSE 5000'', ''CMD ["python", "-m", "cog.server.http"]'',
                    ''COPY . /src''])) NL =
     filter (\<lambda>l. l \<noteq> []) (concat (map (\<lambda>chunk. Split chunk NL) base))
       @ [''WORKDIR /src'', ''EXPOSE 5000'', ''CMD ["python", "-m", "cog.server.http"]'',
          ''COPY . /src'']\<close>
proof -
  let ?block = \<open>[''WORKDIR /src'', ''EXPOSE 5000'', ''CMD ["python", "-m", "cog.server.http"]'',
                ''COPY . /src'']\<close>
  have block: "filter (\<lambda>l. l \<noteq> []) (concat (map (\<lambda>chunk. Split chunk NL) ?block)) = ?block"
    by simp
  have "filter (\<lambda>l. l \<noteq> []) (concat (map (\<lambda>chunk. Split chunk NL) (base @ ?block))) =
          filter (\<lambda>l. l \<noteq> []) (concat (map (\<lambda>chunk. Split chunk NL) base)) @ ?block"
    using block by (simp del: Split.simps)
  moreover from this
  have "filter (\<lambda>l. l \<noteq> []) (concat (map (\<lambda>chunk. Split chunk NL) (base @ ?block))) \<noteq> []"
    by simp
  ultimately show ?thesis
    using Split_joinStringsWithoutLineSpace_nonempty [of "base @ ?block"] by simp
qed

lemma Split_append_general: "Split (a @ sep # b) sep = Split a sep @ Split b sep"
proof (induction a)
  case Nil
  then show ?case by simp
next
  case (Cons c a)
  obtain h t where ht: "Split a sep = h # t"
    using Split_not_Nil [of a sep] by (cases "Split a sep") auto
  with Cons show ?case by simp
qed

lemma Split_Join_concat:
  "ls \<noteq> [] \<Longrightarrow> Split (Join ls [sep]) sep = concat (map (\<lambda>l. Split l sep) ls)"
proof (induction ls "[sep]" rule: Join.induct)
  case 1
  then show ?case by simp
next
  case (2 x)
  then show ?case by simp
next
  case (3 x y ys)
  then show ?case by (simp add: Split_append_general del: Split.simps)
qed

lemma preamble_Join: "preamble = Join preamble_lines [NL]"
  by (simp add: preamble_def preamble_lines_def)

lemma installTini_Join: "installTini = Join installTini_lines [NL]"
  by (simp add: installTini_def installTini_lines_def)

lemma installPythonCUDA_Join:
  "installPythonCUDA g = Inr (Join (installPythonCUDA_lines (PythonVersion (Build (Config g)))) [NL])"
  by (simp add: installPythonCUDA_def installPythonCUDA_lines_def Let_def)

lemma copyPipPackages_Join:
  "copyPipPackagesFromInstallStage g =
     (if GPU (Build (Config g)) \<and> (useCudaBaseImage g \<or> useCogBaseImage g)
      then Join copyPipPackages_lines [NL]
      else ''COPY --from=deps --link /dep /usr/local/lib/python''
             @ PythonVersion (Build (Config g)) @ ''/site-packages'')"
  by (simp add: copyPipPackagesFromInstallStage_def copyPipPackages_lines_def Let_def)

lemma preamble_Split: "Split preamble NL = preamble_lines"
  unfolding preamble_Join
  by (rule Split_Join) (simp_all add: preamble_lines_def)

lemma installTini_Split: "Split installTini NL = installTini_lines"
  unfolding installTini_Join
  by (rule Split_Join) (simp_all add: installTini_lines_def)

lemma installPythonCUDA_Split:
  "NL \<notin> set py \<Longrightarrow> Split (Join (installPythonCUDA_lines py) [NL]) NL = installPythonCUDA_lines py"
  by (rule Split_Join) (simp_all add: installPythonCUDA_lines_def)

lemma copyPipPackages_Split:
  "Split (Join copyPipPackages_lines [NL]) NL = copyPipPackages_lines"
  by (rule Split_Join) (simp_all add: copyPipPackages_lines_def)

section \<open>Lemmas on where the final instruction can occur\<close>

lemma line_free_no_copy_all:
  "NL \<notin> set s \<Longrightarrow> s \<noteq> ''COPY . /src'' \<Longrightarrow> ''COPY . /src'' \<notin> set (Split s NL)"
  by (simp add: Split_sep_free)

lemma Join_no_copy_all:
  assumes "\<forall>l \<in> set ls. ''COPY . /src'' \<notin> set (Split l NL)"
  shows "''COPY . /src'' \<notin> set (Split (Join ls [NL]) NL)"
proof (cases "ls = []")
  case True
  then show ?thesis by simp
next
  case False
  with assms show ?thesis by (simp add: Split_Join_concat del: Split.simps)
qed

lemma Join_no_nl:
  "\<forall>l \<in> set ls. NL \<notin> set l \<Longrightarrow> NL \<notin> set sep \<Longrightarrow> NL \<notin> set (Join ls sep)"
  using Join_chars [of ls sep] by auto

lemma empty_no_copy_all: "''COPY . /src'' \<notin> set (Split [] NL)"
  by simp

lemma preamble_no_copy_all: "''COPY . /src'' \<notin> set (Split preamble NL)"
  by (simp add: preamble_Split preamble_lines_def)

lemma installTini_no_copy_all: "''COPY . /src'' \<notin> set (Split installTini NL)"
  by (simp add: installTini_Split installTini_lines_def)

lemma installPython_no_copy_all:
  assumes "NL \<notin> set (PythonVersion (Build (Config g)))"
      and "installPython g = Inr s"
  shows "''COPY . /src'' \<notin> set (Split s NL)"
proof (cases "GPU (Build (Config g)) \<and> useCudaBaseImage g \<and> \<not> useCogBaseImage g")
  case True
  with assms(2) have "s = Join (installPythonCUDA_lines (PythonVersion (Build (Config g)))) [NL]"
    by (simp add: installPython_def installPythonCUDA_Join)
  moreover have "''COPY . /src'' \<notin> set (installPythonCUDA_lines (PythonVersion (Build (Config g))))"
    by (simp add: installPythonCUDA_lines_def)
  ultimately show ?thesis
    using installPythonCUDA_Split [OF assms(1)] by simp
next
  case False
  with assms(2) have "s = []" by (auto simp: installPython_def)
  then show ?thesis by simp
qed

lemma copyPipPackages_no_copy_all:
  assumes "NL \<notin> set (PythonVersion (Build (Config g)))"
  shows "''COPY . /src'' \<notin> set (Split (copyPipPackagesFromInstallStage g) NL)"
proof (cases "GPU (Build (Config g)) \<and> (useCudaBaseImage g \<or> useCogBaseImage g)")
  case True
  then have "copyPipPackagesFromInstallStage g = Join copyPipPackages_lines [NL]"
    by (auto simp: copyPipPackages_Join)
  then have "Split (copyPipPackagesFromInstallStage g) NL = copyPipPackages_lines"
    by (simp only: copyPipPackages_Split)
  then show ?thesis by (simp add: copyPipPackages_lines_def)
next
  case False
  then have "copyPipPackagesFromInstallStage g =
      ''COPY --from=deps --link /dep /usr/local/lib/python''
             @ PythonVersion (Build (Config g)) @ ''/site-packages''"
    by (auto simp: copyPipPackages_Join)
  moreover have "''COPY . /src'' \<notin> set (Split (''COPY --from=deps --link /dep /usr/local/lib/python''
             @ PythonVersion (Build (Config g)) @ ''/site-packages'') NL)"
    by (rule line_free_no_copy_all) (use assms in simp_all)
  ultimately show ?thesis by simp
qed

lemma aptInstalls_no_copy_all:
  assumes "list_all (\<lambda>p. NL \<notin> set p) (SystemPackages (Build (Config g)))"
      and "aptInstalls E g = Inr s"
  shows "''COPY . /src'' \<notin> set (Split s NL)"
proof (cases "length (SystemPackages (Build (Config g))) = 0")
  case True
  with assms(2) have "s = []" by (simp add: aptInstalls_def)
  then show ?thesis by simp
next
  case False
  define packages where "packages =
     (if useCogBaseImage g
      then FilterString (SystemPackages (Build (Config g)))
             (\<lambda>pkg. \<not> ContainsString (baseImageSystemPackages E) pkg)
      else SystemPackages (Build (Config g)))"
  from assms(1) have "\<forall>p \<in> set packages. NL \<notin> set p"
    by (auto simp: packages_def FilterString_def list_all_iff)
  then have free: "NL \<notin> set (Join packages '' '')"
    by (rule Join_no_nl) simp
  from False assms(2)
  have s: "s = ''RUN --mount=type=cache,target=/var/cache/apt,sharing=locked apt-get update -qq && apt-get install -qqy ''
                @ Join packages '' ''
                @ '' && rm -rf /var/lib/apt/lists/*''"
    by (simp add: aptInstalls_def Let_def packages_def)
  show ?thesis
    unfolding s by (rule line_free_no_copy_all) (use free in simp_all)
qed

lemma secretMounts_filter:
  "secretMounts ms =
     map (\<lambda>mount. ''--mount=type=secret,id='' @ ID mount @ '',target='' @ Target mount)
       (filter (\<lambda>mount. Type mount = ''secret'') ms)"
proof -
  have "foldl (\<lambda>mounts mount.
              if Type mount = ''secret''
              then mounts @ [''--mount=type=secret,id='' @ ID mount @ '',target='' @ Target mount]
              else mounts) acc ms =
        acc @ map (\<lambda>mount. ''--mount=type=secret,id='' @ ID mount @ '',target='' @ Target mount)
               (filter (\<lambda>mount. Type mount = ''secret'') ms)" for acc
    by (induction ms arbitrary: acc) auto
  then show ?thesis by (simp add: secretMounts_def)
qed

lemma runLines_success:
  "runLines rs lines = Inr out \<Longrightarrow>
     out = lines @ map runLine rs \<and> (\<forall>r \<in> set rs. NL \<notin> set (TrimSpace (Command r)))"
proof (induction rs arbitrary: lines)
  case Nil
  then show ?case by simp
next
  case (Cons r rs)
  from Cons.prems have free: "NL \<notin> set (TrimSpace (Command r))"
    by (auto simp: Let_def Contains_nl_def split: if_splits)
  with Cons.prems have "runLines rs (lines @ [runLine r]) = Inr out"
    by (auto simp: Let_def Contains_nl_def runLine_def split: if_splits)
  from Cons.IH [OF this] free show ?case by simp
qed

lemma runCommands_success:
  assumes "runCommands g = Inr s"
  shows "s = Join (map runLine
                (Run (Build (Config g))
                   @ map (\<lambda>command. \<lparr>Command = command, Mounts = []\<rparr>)
                       (PreInstall (Build (Config g))))) [NL]"
    and "\<forall>r \<in> set (Run (Build (Config g))
                   @ map (\<lambda>command. \<lparr>Command = command, Mounts = []\<rparr>)
                       (PreInstall (Build (Config g)))). NL \<notin> set (TrimSpace (Command r))"
proof -
  let ?all = "Run (Build (Config g))
                   @ map (\<lambda>command. \<lparr>Command = command, Mounts = []\<rparr>)
                       (PreInstall (Build (Config g)))"
  from assms obtain out where out: "runLines ?all [] = Inr out" and s: "s = Join out [NL]"
    by (auto simp: runCommands_def preInstall_loop split: sum.splits)
  from runLines_success [OF out] s
  show "s = Join (map runLine ?all) [NL]"
    and "\<forall>r \<in> set ?all. NL \<notin> set (TrimSpace (Command r))"
    by simp_all
qed

lemma runLine_no_nl:
  assumes "NL \<notin> set (TrimSpace (Command r))"
      and "list_all (\<lambda>m. NL \<notin> set (ID m) \<and> NL \<notin> set (Target m)) (Mounts r)"
  shows "NL \<notin> set (runLine r)"
proof -
  from assms(2) have "\<forall>l \<in> set (secretMounts (Mounts r)). NL \<notin> set l"
    by (auto simp: secretMounts_filter list_all_iff)
  then have "NL \<notin> set (Join (secretMounts (Mounts r)) '' '')"
    by (rule Join_no_nl) simp
  with assms(1) show ?thesis by (simp add: runLine_def Let_def)
qed

lemma runLine_RUN: "take 4 (runLine r) = ''RUN ''"
  by (simp add: runLine_def Let_def)

lemma runCommands_no_copy_all:
  assumes "list_all (\<lambda>r. list_all (\<lambda>m. NL \<notin> set (ID m) \<and> NL \<notin> set (Target m)) (Mounts r))
            (Run (Build (Config g)))"
      and "runCommands g = Inr s"
  shows "''COPY . /src'' \<notin> set (Split s NL)"
proof -
  let ?all = "Run (Build (Config g))
                   @ map (\<lambda>command. \<lparr>Command = command, Mounts = []\<rparr>)
                       (PreInstall (Build (Config g)))"
  have "''COPY . /src'' \<notin> set (Split l NL)" if "l \<in> set (map runLine ?all)" for l
  proof -
    from that obtain r where r: "r \<in> set ?all" and l: "l = runLine r" by auto
    from r assms(1)
    have "list_all (\<lambda>m. NL \<notin> set (ID m) \<and> NL \<notin> set (Target m)) (Mounts r)"
      by (auto simp: list_all_iff)
    moreover from runCommands_success(2) [OF assms(2)] r
    have "NL \<notin> set (TrimSpace (Command r))"
      by blast
    ultimately have "NL \<notin> set (runLine r)"
      by (intro runLine_no_nl)
    moreover have "runLine r \<noteq> ''COPY . /src''"
      using runLine_RUN [of r] by auto
    ultimately show ?thesis
      unfolding l by (rule line_free_no_copy_all)
  qed
  then show ?thesis
    unfolding runCommands_success(1) [OF assms(2)]
    by (intro Join_no_copy_all) blast
qed

lemma writeTemp_success:
  "writeTemp E g filename contents = Inr (lines, containerPath) \<Longrightarrow>
     lines = [''COPY '' @ pathJoin [relativeTmpDir g, filename] @ '' /tmp/'' @ filename]
     \<and> containerPath = ''/tmp/'' @ filename"
  by (auto simp: writeTemp_def Let_def split: option.splits)

lemma staged_copy_no_copy_all:
  assumes "NL \<notin> set (relativeTmpDir g)" and "NL \<notin> set filename" and "5 < length filename"
  shows "''COPY . /src'' \<notin>
           set (Split (''COPY '' @ pathJoin [relativeTmpDir g, filename] @ '' /tmp/'' @ filename) NL)"
proof (rule line_free_no_copy_all)
  show "NL \<notin> set (''COPY '' @ pathJoin [relativeTmpDir g, filename] @ '' /tmp/'' @ filename)"
    using assms pathJoin_no_nl [of "relativeTmpDir g" filename] by simp
  show "''COPY '' @ pathJoin [relativeTmpDir g, filename] @ '' /tmp/'' @ filename \<noteq> ''COPY . /src''"
  proof
    assume "''COPY '' @ pathJoin [relativeTmpDir g, filename] @ '' /tmp/'' @ filename = ''COPY . /src''"
    then have "length (''COPY '' @ pathJoin [relativeTmpDir g, filename] @ '' /tmp/'' @ filename) =
        length ''COPY . /src''"
      by (rule arg_cong)
    with assms(3) show False by simp
  qed
qed

lemma installCog_no_copy_all:
  assumes "NL \<notin> set (relativeTmpDir g)" and "installCog E g = Inr s"
  shows "''COPY . /src'' \<notin> set (Split s NL)"
proof -
  from assms(2) obtain lines containerPath
    where w: "writeTemp E g ''cog-0.0.1.dev-py3-none-any.whl'' (cogWheelEmbed E) = Inr (lines, containerPath)"
      and s: "s = Join (lines @ [''RUN --mount=type=cache,target=/root/.cache/pip pip install -t /dep ''
                               @ containerPath]) [NL]"
    by (auto simp: installCog_def Let_def split: sum.splits)
  from writeTemp_success [OF w]
  have lines: "lines = [''COPY '' @ pathJoin [relativeTmpDir g, ''cog-0.0.1.dev-py3-none-any.whl'']
                          @ '' /tmp/'' @ ''cog-0.0.1.dev-py3-none-any.whl'']"
    and path: "containerPath = ''/tmp/'' @ ''cog-0.0.1.dev-py3-none-any.whl''"
    by simp_all
  have copy: "''COPY . /src'' \<notin>
      set (Split (''COPY '' @ pathJoin [relativeTmpDir g, ''cog-0.0.1.dev-py3-none-any.whl'']
                          @ '' /tmp/'' @ ''cog-0.0.1.dev-py3-none-any.whl'') NL)"
    by (rule staged_copy_no_copy_all) (use assms(1) in simp_all)
  have run: "''COPY . /src'' \<notin>
      set (Split (''RUN --mount=type=cache,target=/root/.cache/pip pip install -t /dep ''
                    @ ''/tmp/'' @ ''cog-0.0.1.dev-py3-none-any.whl'') NL)"
    by (rule line_free_no_copy_all) simp_all
  show ?thesis
    unfolding s lines path
    by (rule Join_no_copy_all) (use copy run in \<open>simp del: Split.simps\<close>)
qed

lemma append_nl_no_copy_all:
  assumes "''COPY . /src'' \<notin> set (Split a NL)" and "''COPY . /src'' \<notin> set (Split b NL)"
  shows "''COPY . /src'' \<notin> set (Split (a @ [NL] @ b) NL)"
proof -
  have "Split (a @ [NL] @ b) NL = Split a NL @ Split b NL"
    using Split_append_general [of a NL b] by (simp del: Split.simps)
  with assms show ?thesis by (simp del: Split.simps)
qed

lemma requirements_copy_no_copy_all:
  assumes "NL \<notin> set (relativeTmpDir g)"
      and "writeTemp E g ''requirements.txt'' contents = Inr (copyLine, containerPath)"
  shows "''COPY . /src'' \<notin> set (Split (copyLine ! 0) NL)"
    and "containerPath = ''/tmp/requirements.txt''"
proof -
  from writeTemp_success [OF assms(2)]
  have line: "copyLine ! 0 = ''COPY '' @ pathJoin [relativeTmpDir g, ''requirements.txt'']
                          @ '' /tmp/'' @ ''requirements.txt''"
    and path: "containerPath = ''/tmp/requirements.txt''"
    by simp_all
  show "''COPY . /src'' \<notin> set (Split (copyLine ! 0) NL)"
    unfolding line by (rule staged_copy_no_copy_all) (use assms(1) in simp_all)
  show "containerPath = ''/tmp/requirements.txt''" by (rule path)
qed

lemma pipInstalls_no_copy_all:
  assumes "NL \<notin> set (relativeTmpDir g)" and "pipInstalls E g = (Inr s, g')"
  shows "''COPY . /src'' \<notin> set (Split s NL)"
proof -
  from assms(2) consider "s = []"
    | c copyLine containerPath where
        "writeTemp E (g\<lparr>pythonRequirementsContents := c\<rparr>) ''requirements.txt'' c =
           Inr (copyLine, containerPath)"
        "s = Join [copyLine ! 0, ''RUN pip install -r '' @ containerPath] [NL]"
    by (auto simp: pipInstalls_def Let_def split: prod.splits option.splits if_splits sum.splits)
  then show ?thesis
  proof cases
    case 1
    then show ?thesis by simp
  next
    case 2
    from assms(1) have rel: "NL \<notin> set (relativeTmpDir (g\<lparr>pythonRequirementsContents := c\<rparr>))"
      by simp
    note copy = requirements_copy_no_copy_all [OF rel 2(1)]
    have run: "''COPY . /src'' \<notin> set (Split (''RUN pip install -r '' @ ''/tmp/requirements.txt'') NL)"
      by (rule line_free_no_copy_all) simp_all
    show ?thesis
      unfolding 2(2) copy(2)
      by (rule Join_no_copy_all) (use copy(1) run in \<open>simp del: Split.simps\<close>)
  qed
qed

lemma pipInstallStage_no_copy_all:
  assumes "NL \<notin> set (relativeTmpDir g)"
      and "NL \<notin> set (PythonVersion (Build (Config g)))"
      and "NL \<notin> set (Getenv E ''COG_EXPERIMENTAL_BUILD_STAGE_DEPS'')"
      and "pipInstallStage E g = (Inr s, g')"
  shows "''COPY . /src'' \<notin> set (Split s NL)"
proof -
  let ?from = "''FROM '' @ (''python:'' @ PythonVersion (Build (Config g))) @ '' as deps''"
  let ?deps = "Getenv E ''COG_EXPERIMENTAL_BUILD_STAGE_DEPS''"
  from assms(4) obtain cog where cog: "installCog E g = Inr cog"
    by (auto simp: pipInstallStage_def split: sum.splits)
  note cog_ok = installCog_no_copy_all [OF assms(1) cog]
  have from_ok: "''COPY . /src'' \<notin> set (Split ?from NL)"
    by (rule line_free_no_copy_all) (use assms(2) in simp_all)
  have deps_ok: "''COPY . /src'' \<notin> set (Split (''RUN '' @ ?deps) NL)"
    by (rule line_free_no_copy_all) (use assms(3) in simp_all)
  have fromLine_ok: "''COPY . /src'' \<notin>
      set (Split (if ?deps \<noteq> [] then ?from @ [NL] @ ''RUN '' @ ?deps else ?from) NL)"
  proof (cases "?deps \<noteq> []")
    case True
    show ?thesis
      by (subst if_P [OF True]) (rule append_nl_no_copy_all [OF from_ok deps_ok])
  next
    case False
    show ?thesis
      by (subst if_not_P [OF False]) (rule from_ok)
  qed
  from assms(4) cog consider "s = ?from @ [NL] @ cog"
    | c copyLine containerPath where
        "writeTemp E (g\<lparr>pythonRequirementsContents := c\<rparr>) ''requirements.txt'' c =
           Inr (copyLine, containerPath)"
        "s = Join [if ?deps \<noteq> [] then ?from @ [NL] @ ''RUN '' @ ?deps else ?from, cog,
                   copyLine ! 0,
                   ''RUN --mount=type=cache,target=/root/.cache/pip pip install -t /dep -r ''
                     @ containerPath] [NL]"
    by (auto simp: pipInstallStage_def Let_def split: prod.splits option.splits if_splits sum.splits)
  then show ?thesis
  proof cases
    case 1
    from append_nl_no_copy_all [OF from_ok cog_ok] show ?thesis
      unfolding 1 .
  next
    case 2
    from assms(1) have rel: "NL \<notin> set (relativeTmpDir (g\<lparr>pythonRequirementsContents := c\<rparr>))"
      by simp
    note copy = requirements_copy_no_copy_all [OF rel 2(1)]
    have run: "''COPY . /src'' \<notin>
        set (Split (''RUN --mount=type=cache,target=/root/.cache/pip pip install -t /dep -r ''
                     @ ''/tmp/requirements.txt'') NL)"
      by (rule line_free_no_copy_all) simp_all
    show ?thesis
      unfolding 2(2) copy(2)
      by (rule Join_no_copy_all) (use fromLine_ok cog_ok copy(1) run in \<open>simp del: Split.simps\<close>)
  qed
qed

lemma joinStringsWithoutLineSpace_member:
  assumes "l \<in> set (Split (joinStringsWithoutLineSpace chunks) NL)" and "l \<noteq> []"
  shows "\<exists>chunk \<in> set chunks. l \<in> set (Split chunk NL)"
proof -
  from assms have "l \<in> set (filter (\<lambda>s. s \<noteq> []) (Split (joinStringsWithoutLineSpace chunks) NL))"
    by simp
  then show ?thesis
    unfolding Split_joinStringsWithoutLineSpace by auto
qed

lemma generateInitialSteps_no_copy_all:
  assumes free: "lineBreakFree E imageName g"
      and init: "generateInitialSteps E g = (Inr initialSteps, g')"
  shows "''COPY . /src'' \<notin> set (Split initialSteps NL)"
proof
  assume here: "''COPY . /src'' \<in> set (Split initialSteps NL)"
  from free have py: "NL \<notin> set (PythonVersion (Build (Config g)))"
    and pkgs: "list_all (\<lambda>p. NL \<notin> set p) (SystemPackages (Build (Config g)))"
    and mounts: "list_all (\<lambda>r. list_all (\<lambda>m. NL \<notin> set (ID m) \<and> NL \<notin> set (Target m)) (Mounts r))
            (Run (Build (Config g)))"
    and rel: "NL \<notin> set (relativeTmpDir g)"
    and deps: "NL \<notin> set (Getenv E ''COG_EXPERIMENTAL_BUILD_STAGE_DEPS'')"
    by (simp_all add: lineBreakFree_def)
  from init obtain baseImage where base: "BaseImage E g = Inr baseImage"
    by (auto simp: generateInitialSteps_def split: sum.splits)
  with free have "NL \<notin> set baseImage" by (simp add: lineBreakFree_def)
  then have from_ok: "''COPY . /src'' \<notin> set (Split (''FROM '' @ baseImage) NL)"
    by (intro line_free_no_copy_all) simp_all
  have syntax_ok: "''COPY . /src'' \<notin> set (Split ''#syntax=docker/dockerfile:1.4'' NL)"
    by simp
  from init base obtain python apt run
    where python: "installPython g = Inr python"
      and apt: "aptInstalls E g = Inr apt"
      and run: "runCommands g = Inr run"
    by (auto simp: generateInitialSteps_def split: sum.splits)
  note python_ok = installPython_no_copy_all [OF py python]
  note apt_ok = aptInstalls_no_copy_all [OF pkgs apt]
  note run_ok = runCommands_no_copy_all [OF mounts run]
  show False
  proof (cases "useCogBaseImage g")
    case True
    with init base python apt run obtain pip
      where pip: "pipInstalls E g = (Inr pip, g')"
        and steps: "initialSteps = joinStringsWithoutLineSpace
             [''#syntax=docker/dockerfile:1.4'', ''FROM '' @ baseImage, apt, pip, run]"
      by (auto simp: generateInitialSteps_def split: sum.splits prod.splits)
    note pip_ok = pipInstalls_no_copy_all [OF rel pip]
    from joinStringsWithoutLineSpace_member [OF here [unfolded steps]]
    show False
      using syntax_ok from_ok apt_ok pip_ok run_ok by (simp del: Split.simps)
  next
    case False
    with init base python apt run obtain stage
      where stage: "pipInstallStage E g = (Inr stage, g')"
        and steps: "initialSteps = joinStringsWithoutLineSpace
             [''#syntax=docker/dockerfile:1.4'', stage, ''FROM '' @ baseImage, preamble,
              installTini, python, apt, copyPipPackagesFromInstallStage g', run]"
      by (auto simp: generateInitialSteps_def split: sum.splits prod.splits)
    note stage_ok = pipInstallStage_no_copy_all [OF rel py deps stage]
    from pipInstallStage_keeps [OF stage] py
    have "NL \<notin> set (PythonVersion (Build (Config g')))" by auto
    note copy_ok = copyPipPackages_no_copy_all [OF this]
    from joinStringsWithoutLineSpace_member [OF here [unfolded steps]]
    show False
      using syntax_ok from_ok apt_ok stage_ok run_ok python_ok copy_ok
        preamble_no_copy_all installTini_no_copy_all
      by (simp del: Split.simps)
  qed
qed

lemma concat_lines_avoid:
  "(\<And>x. x \<in> set xs \<Longrightarrow> y \<notin> set (f x)) \<Longrightarrow> y \<notin> set (filter P (concat (map f xs)))"
  by auto

lemma BaseImage_models:
  "BaseImage E (g\<lparr>modelDirs := dirs, modelFiles := files\<rparr>) = BaseImage E g"
  by (simp add: BaseImage_def Let_def split: sum.splits prod.splits)

lemma lineBreakFree_models:
  "lineBreakFree E imageName (g\<lparr>modelDirs := dirs, modelFiles := files\<rparr>) =
     lineBreakFree E imageName g"
  by (simp add: lineBreakFree_def BaseImage_models)

lemma weight_copy_no_copy_all:
  assumes "NL \<notin> set p"
  shows "NL \<notin> set (''COPY --from=weights --link '' @ pathJoin [''/src'', p] @ '' '' @ pathJoin [''/src'', p])"
    and "''COPY --from=weights --link '' @ pathJoin [''/src'', p] @ '' '' @ pathJoin [''/src'', p]
           \<noteq> ''COPY . /src''"
    and "''COPY --from=weights --link '' @ pathJoin [''/src'', p] @ '' '' @ pathJoin [''/src'', p] \<noteq> []"
  using assms pathJoin_no_nl [of "''/src''" p] by simp_all

lemma weights_stage_line:
  assumes "NL \<notin> set imageName"
  shows "NL \<notin> set (''FROM '' @ (imageName @ ''-weights'') @ '' AS '' @ ''weights'')"
    and "''FROM '' @ (imageName @ ''-weights'') @ '' AS '' @ ''weights'' \<noteq> ''COPY . /src''"
    and "''FROM '' @ (imageName @ ''-weights'') @ '' AS '' @ ''weights'' \<noteq> []"
  using assms by simp_all

lemma joinStringsWithoutLineSpace_drop_empty:
  "joinStringsWithoutLineSpace (xs @ [] # ys) = joinStringsWithoutLineSpace (xs @ ys)"
  by (simp add: joinStringsWithoutLineSpace_lines)

section \<open>The sample inputs, evaluated\<close>

lemma sample_weights_plan:
  \<open>GenerateModelBaseWithSeparateWeights sample_collaborators ''img''
       (SetUseCogBaseImage True (sample_generator sample_config)) =
     (Inr (''#syntax=docker/dockerfile:1.4'' @ [NL] @ ''FROM scratch'' @ [NL] @ [NL]
             @ ''COPY weights /src/weights'' @ [NL] @ ''COPY a.bin /src/a.bin'',
           Join [''#syntax=docker/dockerfile:1.4'',
                 ''FROM img-weights AS weights'',
                 ''FROM r8.im/cog-base:cuda-python3.10-torch'',
                 ''RUN echo hi'',
                 ''COPY --from=weights --link /src/weights /src/weights'',
                 ''COPY --from=weights --link /src/a.bin /src/a.bin'',
                 ''WORKDIR /src'',
                 ''EXPOSE 5000'',
                 ''CMD ["python", "-m", "cog.server.http"]'',
                 ''COPY . /src''] [NL],
           makeDockerignoreForWeights [''weights''] [''a.bin'']),
      (SetUseCogBaseImage True (sample_generator sample_config))
        \<lparr>modelDirs := [''weights''], modelFiles := [''a.bin'']\<rparr>)\<close>
  by code_simp

lemma sample_lineBreakFree:
  "lineBreakFree sample_collaborators ''img'' (SetUseCogBaseImage True (sample_generator sample_config))"
  by code_simp

lemma gpu_initial_steps:
  "\<exists>stage. generateInitialSteps sample_collaborators (sample_generator gpu_config) =
     (Inr (joinStringsWithoutLineSpace
             [''#syntax=docker/dockerfile:1.4'', stage,
              ''FROM '' @ ''nvidia/cuda:11.8.0-cudnn8-devel-ubuntu22.04'',
              preamble, installTini,
              Join (installPythonCUDA_lines ''3.10'') [NL], [],
              copyPipPackagesFromInstallStage (sample_generator gpu_config), []]),
      sample_generator gpu_config)"
proof -
  have base: "BaseImage sample_collaborators (sample_generator gpu_config) =
      Inr ''nvidia/cuda:11.8.0-cudnn8-devel-ubuntu22.04''"
    by (simp add: BaseImage_def sample_defs)
  have python: "installPython (sample_generator gpu_config) =
      Inr (Join (installPythonCUDA_lines ''3.10'') [NL])"
    by (simp add: installPython_def installPythonCUDA_Join sample_defs)
  have apt: "aptInstalls sample_collaborators (sample_generator gpu_config) = Inr []"
    by (simp add: aptInstalls_def sample_defs)
  have run: "runCommands (sample_generator gpu_config) = Inr []"
    by (simp add: runCommands_def sample_defs)
  have "\<exists>stage. pipInstallStage sample_collaborators (sample_generator gpu_config) =
      (Inr stage, sample_generator gpu_config)"
    by (simp add: pipInstallStage_def installCog_def writeTemp_def Trim_def Let_def sample_defs)
  then obtain stage where "pipInstallStage sample_collaborators (sample_generator gpu_config) =
      (Inr stage, sample_generator gpu_config)" ..
  moreover have "\<not> useCogBaseImage (sample_generator gpu_config)"
    by (simp add: sample_defs)
  ultimately show ?thesis
    using base python apt run
    by (intro exI [of _ stage]) (simp add: generateInitialSteps_def)
qed

lemma sample_initial_steps:
  "generateInitialSteps sample_collaborators
       (SetUseCogBaseImage True (sample_generator sample_config)) =
     (Inr (Join [''#syntax=docker/dockerfile:1.4'',
                 ''FROM r8.im/cog-base:cuda-python3.10-torch'',
                 ''RUN echo hi''] [NL]),
      SetUseCogBaseImage True (sample_generator sample_config))"
  by code_simp

lemma linebreak_weights_plan_lines:
  \<open>weightsPlanLines
     (GenerateModelBaseWithSeparateWeights linebreak_collaborators ''img''
        (SetUseCogBaseImage True (sample_generator sample_config))) =
   [''#syntax=docker/dockerfile:1.4'',
    ''FROM img-weights AS weights'',
    ''FROM r8.im/cog-base:cuda-python3.10-torch'',
    ''RUN echo hi'',
    ''COPY --from=weights --link /src/w'',
    ''COPY . /src /src/w'',
    ''COPY . /src'',
    ''WORKDIR /src'',
    ''EXPOSE 5000'',
    ''CMD ["python", "-m", "cog.server.http"]'',
    ''COPY . /src'']\<close>
  by code_simp

section \<open>Claims on text normalisation and the ignore file\<close>

text \<open>
  C8. Normalising a text (line-split, drop empty lines, rejoin) is idempotent:
  normalising the result of a normalisation returns it unchanged, and every text
  none of whose lines is empty is returned unchanged.
\<close>

theorem joinStringsWithoutLineSpace_idempotent:
  "joinStringsWithoutLineSpace [joinStringsWithoutLineSpace chunks] = joinStringsWithoutLineSpace chunks
   \<and> ([] \<notin> set (Split t NL) \<longrightarrow> joinStringsWithoutLineSpace [t] = t)"
proof
  have "joinStringsWithoutLineSpace [joinStringsWithoutLineSpace chunks] =
          Join (filter (\<lambda>s. s \<noteq> []) (Split (joinStringsWithoutLineSpace chunks) NL)) [NL]"
    by (simp add: joinStringsWithoutLineSpace_lines)
  also have "\<dots> = joinStringsWithoutLineSpace chunks"
    unfolding Split_joinStringsWithoutLineSpace
    by (simp add: joinStringsWithoutLineSpace_lines)
  finally show "joinStringsWithoutLineSpace [joinStringsWithoutLineSpace chunks] =
      joinStringsWithoutLineSpace chunks" .
next
  show "[] \<notin> set (Split t NL) \<longrightarrow> joinStringsWithoutLineSpace [t] = t"
  proof
    assume "[] \<notin> set (Split t NL)"
    then have "filter (\<lambda>s. s \<noteq> []) (Split t NL) = Split t NL"
      by (auto simp: filter_id_conv)
    then show "joinStringsWithoutLineSpace [t] = t"
      by (simp add: joinStringsWithoutLineSpace_lines Join_Split)
  qed
qed

theorem joinStringsWithoutLineSpace_idempotent_witness:
  "[] \<notin> set (Split ''FROM a\<newline>RUN b'' NL)
   \<and> joinStringsWithoutLineSpace [''FROM a\<newline>RUN b''] = ''FROM a\<newline>RUN b''"
proof -
  have h: "[] \<notin> set (Split ''FROM a\<newline>RUN b'' NL)" by simp
  with joinStringsWithoutLineSpace_idempotent [of "[]" "''FROM a\<newline>RUN b''"]
  show ?thesis by blast
qed

text \<open>
  C7. The ignore text is the fixed header, then for each directory in discovery order
  the two lines \<open>dir\<close> and \<open>dir/**/*\<close>, then for each file in discovery order the
  line \<open>file\<close>; nothing is deduplicated. For directories \<open>["weights"]\<close> and files
  \<open>["a.bin"]\<close> it is the header followed by \<open>"weights\nweights/**/*\na.bin\n"\<close>.
\<close>

theorem makeDockerignoreForWeights_layout:
  "makeDockerignoreForWeights dirs files =
     DockerignoreHeader
       @ concat (map (\<lambda>d. d @ [NL] @ d @ ''/**/*'' @ [NL]) dirs)
       @ concat (map (\<lambda>f. f @ [NL]) files)
   \<and> makeDockerignoreForWeights [''weights''] [''a.bin''] =
       DockerignoreHeader @ ''weights\<newline>weights/**/*\<newline>a.bin\<newline>''
   \<and> makeDockerignoreForWeights [''w'', ''w''] [''f'', ''f''] =
       DockerignoreHeader @ ''w\<newline>w/**/*\<newline>w\<newline>w/**/*\<newline>f\<newline>f\<newline>''"
proof -
  have dirs_loop: "foldl (\<lambda>contents p. contents @ p @ [NL] @ p @ ''/**/*'' @ [NL]) acc ds =
      acc @ concat (map (\<lambda>d. d @ [NL] @ d @ ''/**/*'' @ [NL]) ds)" for acc ds
    by (induction ds arbitrary: acc) auto
  have files_loop: "foldl (\<lambda>contents p. contents @ p @ [NL]) acc fs =
      acc @ concat (map (\<lambda>f. f @ [NL]) fs)" for acc fs
    by (induction fs arbitrary: acc) auto
  have general: "makeDockerignoreForWeights ds fs =
     DockerignoreHeader
       @ concat (map (\<lambda>d. d @ [NL] @ d @ ''/**/*'' @ [NL]) ds)
       @ concat (map (\<lambda>f. f @ [NL]) fs)" for ds fs
    unfolding makeDockerignoreForWeights_def Let_def dirs_loop files_loop by simp
  show ?thesis
    by (simp add: general)
qed

section \<open>Claims on the flags, the base image and versions\<close>

text \<open>
  C9. \<open>SetUseCudaBaseImage\<close> switches the accelerator base image off for the
  argument \<open>"false"\<close> and on for every other string: the flag is false afterwards
  exactly when the argument is \<open>"false"\<close>; \<open>"auto"\<close>, \<open>"asdf"\<close>, \<open>"true"\<close> and the
  empty string all switch it on.
\<close>

theorem SetUseCudaBaseImage_only_false_disables:
  "(\<not> useCudaBaseImage (SetUseCudaBaseImage s g)) = (s = ''false'')
   \<and> useCudaBaseImage (SetUseCudaBaseImage ''auto'' g)
   \<and> useCudaBaseImage (SetUseCudaBaseImage ''asdf'' g)
   \<and> useCudaBaseImage (SetUseCudaBaseImage ''true'' g)
   \<and> useCudaBaseImage (SetUseCudaBaseImage [] g)
   \<and> \<not> useCudaBaseImage (SetUseCudaBaseImage ''false'' g)"
  by (simp add: SetUseCudaBaseImage_def)

text \<open>
  C3. \<open>BaseImage\<close> follows exactly one of three strategies, in this order of
  precedence. With the engine-base flag set it strips the patch version of the
  runtime and of the tensor library, has the triple validated, and returns the name
  that encodes the validated triple, or the error of the first of these steps that
  fails. Otherwise, with the GPU flag and the accelerator-base flag both set, it
  returns what the configuration gives as accelerator tag. Otherwise it returns
  \<open>"python:"\<close>, the configured runtime version and \<open>"-slim"\<close>.
\<close>

theorem BaseImage_three_strategies:
  "(useCogBaseImage g \<longrightarrow>
      (\<exists>err. stripPatchVersion (NewVersion E) (PythonVersion (Build (Config g))) = Inl err
             \<and> BaseImage E g = Inl err)
    \<or> (\<exists>python pc err.
           stripPatchVersion (NewVersion E) (PythonVersion (Build (Config g))) = Inr (python, pc)
         \<and> stripPatchVersion (NewVersion E) (fst (TorchVersion E (Config g))) = Inl err
         \<and> BaseImage E g = Inl err)
    \<or> (\<exists>python pc torch tc.
           stripPatchVersion (NewVersion E) (PythonVersion (Build (Config g))) = Inr (python, pc)
         \<and> stripPatchVersion (NewVersion E) (fst (TorchVersion E (Config g))) = Inr (torch, tc)
         \<and> (case NewBaseImageGenerator E (CUDA (Build (Config g))) python torch of
                Inl err \<Rightarrow> BaseImage E g = Inl err
              | Inr ig \<Rightarrow> BaseImage E g =
                  Inr (BaseImageName E (cudaVersion ig) (pythonVersion ig) (torchVersion ig)))))
   \<and> (\<not> useCogBaseImage g \<and> GPU (Build (Config g)) \<and> useCudaBaseImage g \<longrightarrow>
        BaseImage E g = CUDABaseImageTag E (Config g))
   \<and> (\<not> useCogBaseImage g \<and> \<not> (GPU (Build (Config g)) \<and> useCudaBaseImage g) \<longrightarrow>
        BaseImage E g = Inr (''python:'' @ PythonVersion (Build (Config g)) @ ''-slim''))"
proof (intro conjI impI)
  assume cog: "useCogBaseImage g"
  show "(\<exists>err. stripPatchVersion (NewVersion E) (PythonVersion (Build (Config g))) = Inl err
             \<and> BaseImage E g = Inl err)
    \<or> (\<exists>python pc err.
           stripPatchVersion (NewVersion E) (PythonVersion (Build (Config g))) = Inr (python, pc)
         \<and> stripPatchVersion (NewVersion E) (fst (TorchVersion E (Config g))) = Inl err
         \<and> BaseImage E g = Inl err)
    \<or> (\<exists>python pc torch tc.
           stripPatchVersion (NewVersion E) (PythonVersion (Build (Config g))) = Inr (python, pc)
         \<and> stripPatchVersion (NewVersion E) (fst (TorchVersion E (Config g))) = Inr (torch, tc)
         \<and> (case NewBaseImageGenerator E (CUDA (Build (Config g))) python torch of
                Inl err \<Rightarrow> BaseImage E g = Inl err
              | Inr ig \<Rightarrow> BaseImage E g =
                  Inr (BaseImageName E (cudaVersion ig) (pythonVersion ig) (torchVersion ig))))"
  proof (cases "stripPatchVersion (NewVersion E) (PythonVersion (Build (Config g)))")
    case (Inl err)
    with cog show ?thesis by (simp add: BaseImage_def)
  next
    case python: (Inr pr)
    obtain python pc where pr: "pr = (python, pc)" by (cases pr)
    show ?thesis
    proof (cases "stripPatchVersion (NewVersion E) (fst (TorchVersion E (Config g)))")
      case (Inl err)
      with cog python pr show ?thesis by (simp add: BaseImage_def)
    next
      case torch: (Inr tr)
      obtain torch tc where tr: "tr = (torch, tc)" by (cases tr)
      from cog python pr torch tr show ?thesis
        by (simp add: BaseImage_def split: sum.splits)
    qed
  qed
next
  assume "\<not> useCogBaseImage g \<and> GPU (Build (Config g)) \<and> useCudaBaseImage g"
  then show "BaseImage E g = CUDABaseImageTag E (Config g)"
    by (simp add: BaseImage_def)
next
  assume "\<not> useCogBaseImage g \<and> \<not> (GPU (Build (Config g)) \<and> useCudaBaseImage g)"
  then show "BaseImage E g = Inr (''python:'' @ PythonVersion (Build (Config g)) @ ''-slim'')"
    by (auto simp add: BaseImage_def)
qed

theorem BaseImage_three_strategies_witness:
  "BaseImage sample_collaborators (sample_generator sample_config) = Inr ''python:3.10.5-slim''
   \<and> BaseImage sample_collaborators (sample_generator gpu_config) =
       Inr ''nvidia/cuda:11.8.0-cudnn8-devel-ubuntu22.04''
   \<and> useCogBaseImage (SetUseCogBaseImage True (sample_generator gpu_config))
   \<and> BaseImage sample_collaborators (SetUseCogBaseImage True (sample_generator gpu_config)) =
       Inr ''r8.im/cog-base:cuda11.8-python3.10-torch''"
proof -
  have plain: "\<not> useCogBaseImage (sample_generator sample_config)
      \<and> \<not> (GPU (Build (Config (sample_generator sample_config)))
            \<and> useCudaBaseImage (sample_generator sample_config))"
    by (simp add: sample_defs)
  have cuda: "\<not> useCogBaseImage (sample_generator gpu_config)
      \<and> GPU (Build (Config (sample_generator gpu_config)))
      \<and> useCudaBaseImage (sample_generator gpu_config)"
    by (simp add: sample_defs)
  have cog: "useCogBaseImage (SetUseCogBaseImage True (sample_generator gpu_config))"
    by (simp add: sample_defs)
  have e1: "stripPatchVersion semverNewVersion ''3.10'' = Inr (''3.10'', False)"
    by code_simp
  have e2: "stripPatchVersion semverNewVersion [] = Inr ([], False)"
    by code_simp
  have "BaseImage sample_collaborators (sample_generator sample_config) = Inr ''python:3.10.5-slim''"
    using BaseImage_three_strategies [of "sample_generator sample_config" sample_collaborators] plain
    by (simp add: sample_defs)
  moreover have "BaseImage sample_collaborators (sample_generator gpu_config) =
       Inr ''nvidia/cuda:11.8.0-cudnn8-devel-ubuntu22.04''"
    using BaseImage_three_strategies [of "sample_generator gpu_config" sample_collaborators] cuda
    by (simp add: sample_defs)
  moreover have "BaseImage sample_collaborators (SetUseCogBaseImage True (sample_generator gpu_config)) =
       Inr ''r8.im/cog-base:cuda11.8-python3.10-torch''"
    using BaseImage_three_strategies
      [of "SetUseCogBaseImage True (sample_generator gpu_config)" sample_collaborators] cog e1 e2
    by (simp add: sample_defs)
  ultimately show ?thesis using cog by simp
qed

text \<open>
  C4. With the version parser modelled from the spec, \<open>stripPatchVersion\<close> maps
  \<open>"3.10.5"\<close> to \<open>("3.10", true)\<close> and \<open>"3.10"\<close> to \<open>("3.10", false)\<close>, and
  fails on \<open>"not-a-version"\<close>; with any parser it maps the empty string to the
  empty string, unchanged, and a non-empty string that parses to major, dot, minor,
  with \<open>changed\<close> true exactly when that text differs from the input; a non-empty
  string that does not parse is an error.
\<close>

theorem stripPatchVersion_major_minor:
  "stripPatchVersion semverNewVersion ''3.10.5'' = Inr (''3.10'', True)
   \<and> stripPatchVersion semverNewVersion ''3.10'' = Inr (''3.10'', False)
   \<and> stripPatchVersion newVersion [] = Inr ([], False)
   \<and> stripPatchVersion semverNewVersion ''not-a-version'' =
       Inl (Error ''Invalid version: not-a-version'')
   \<and> (s \<noteq> [] \<and> newVersion s = Inr v \<longrightarrow>
        stripPatchVersion newVersion s =
          Inr (showInt (Major v) @ ''.'' @ showInt (Minor v),
               showInt (Major v) @ ''.'' @ showInt (Minor v) \<noteq> s))
   \<and> (s \<noteq> [] \<and> newVersion s = Inl err \<longrightarrow>
        stripPatchVersion newVersion s = Inl (Error (''Invalid version: '' @ s)))"
proof (intro conjI)
  show "stripPatchVersion semverNewVersion ''3.10.5'' = Inr (''3.10'', True)"
    by code_simp
  show "stripPatchVersion semverNewVersion ''3.10'' = Inr (''3.10'', False)"
    by code_simp
  show "stripPatchVersion newVersion [] = Inr ([], False)"
    by (simp add: stripPatchVersion_def)
  show "stripPatchVersion semverNewVersion ''not-a-version'' =
       Inl (Error ''Invalid version: not-a-version'')"
    by code_simp
  show "s \<noteq> [] \<and> newVersion s = Inr v \<longrightarrow>
        stripPatchVersion newVersion s =
          Inr (showInt (Major v) @ ''.'' @ showInt (Minor v),
               showInt (Major v) @ ''.'' @ showInt (Minor v) \<noteq> s)"
    by (simp add: stripPatchVersion_def Let_def)
  show "s \<noteq> [] \<and> newVersion s = Inl err \<longrightarrow>
        stripPatchVersion newVersion s = Inl (Error (''Invalid version: '' @ s))"
    by (simp add: stripPatchVersion_def)
qed

theorem stripPatchVersion_major_minor_witness:
  "semverNewVersion ''3.8.17'' = Inr \<lparr>Major = 3, Minor = 8\<rparr>
   \<and> stripPatchVersion semverNewVersion ''3.8.17'' = Inr (''3.8'', True)
   \<and> semverNewVersion ''3.x'' = Inl (Error ''Invalid version: 3.x'')
   \<and> stripPatchVersion semverNewVersion ''3.x'' = Inl (Error ''Invalid version: 3.x'')"
proof -
  have p: "semverNewVersion ''3.8.17'' = Inr \<lparr>Major = 3, Minor = 8\<rparr>"
    by code_simp
  have q: "semverNewVersion ''3.x'' = Inl (Error ''Invalid version: 3.x'')"
    by code_simp
  have d: "showInt 3 @ ''.'' @ showInt 8 = ''3.8''"
    by code_simp
  have "stripPatchVersion semverNewVersion ''3.8.17'' = Inr (''3.8'', True)"
    using stripPatchVersion_major_minor
      [of semverNewVersion "''3.8.17''" "\<lparr>Major = 3, Minor = 8\<rparr>"] p d
    by simp
  moreover have "stripPatchVersion semverNewVersion ''3.x'' = Inl (Error ''Invalid version: 3.x'')"
    using stripPatchVersion_major_minor
      [of semverNewVersion "''3.x''" _ "Error ''Invalid version: 3.x''"] q
    by simp
  ultimately show ?thesis using p q by simp
qed



section \<open>Claims on run commands\<close>

text \<open>
  C6. The text of every run command, configured or legacy pre-install, is trimmed of
  white space: the instruction of a command is \<open>RUN\<close>, its secret mounts if it
  has mounts, and its trimmed text, and when no trimmed text contains a line break
  \<open>runCommands\<close> returns these instructions, one per command and in order, joined
  by line breaks. When the trimmed text of some command still contains a line break,
  \<open>runCommands\<close> fails with the multiline-command error of the first such command
  in order; the message ends with the trimmed text of that command, verbatim. Then
  none of the generation functions produces a plan: each returns an error.
\<close>

theorem runCommands_multiline_error:
  "runLine r =
     (if 0 < length (Mounts r)
      then ''RUN '' @ Join (secretMounts (Mounts r)) '' '' @ '' '' @ TrimSpace (Command r)
      else ''RUN '' @ TrimSpace (Command r))
   \<and> ((\<forall>r \<in> set (Run (Build (Config g))
                     @ map (\<lambda>command. \<lparr>Command = command, Mounts = []\<rparr>)
                         (PreInstall (Build (Config g)))).
           \<not> Contains_nl (TrimSpace (Command r))) \<longrightarrow>
        runCommands g =
          Inr (Join (map runLine
                 (Run (Build (Config g))
                    @ map (\<lambda>command. \<lparr>Command = command, Mounts = []\<rparr>)
                        (PreInstall (Build (Config g))))) [NL]))
   \<and> (r \<in> set (Run (Build (Config g))
                     @ map (\<lambda>command. \<lparr>Command = command, Mounts = []\<rparr>)
                         (PreInstall (Build (Config g))))
        \<and> Contains_nl (TrimSpace (Command r)) \<longrightarrow>
        (\<exists>first.
           find (\<lambda>r. Contains_nl (TrimSpace (Command r)))
             (Run (Build (Config g))
                @ map (\<lambda>command. \<lparr>Command = command, Mounts = []\<rparr>)
                    (PreInstall (Build (Config g)))) = Some first
         \<and> runCommands g = Inl (Error (multilineMessage (TrimSpace (Command first))))
         \<and> HasSuffix (multilineMessage (TrimSpace (Command first))) (TrimSpace (Command first))
         \<and> (\<exists>err. generateInitialSteps E g = (Inl err, g))
         \<and> (\<exists>err. GenerateModelBase E g = (Inl err, g))
         \<and> (\<exists>err. GenerateDockerfileWithoutSeparateWeights E g = (Inl err, g))
         \<and> (\<exists>err. fst (GenerateModelBaseWithSeparateWeights E imageName g) = Inl err)))"
proof (intro conjI impI)
  show "runLine r =
     (if 0 < length (Mounts r)
      then ''RUN '' @ Join (secretMounts (Mounts r)) '' '' @ '' '' @ TrimSpace (Command r)
      else ''RUN '' @ TrimSpace (Command r))"
    by (simp add: runLine_def Let_def)
next
  assume "\<forall>r \<in> set (Run (Build (Config g))
                     @ map (\<lambda>command. \<lparr>Command = command, Mounts = []\<rparr>)
                         (PreInstall (Build (Config g)))).
           \<not> Contains_nl (TrimSpace (Command r))"
  then show "runCommands g =
          Inr (Join (map runLine
                 (Run (Build (Config g))
                    @ map (\<lambda>command. \<lparr>Command = command, Mounts = []\<rparr>)
                        (PreInstall (Build (Config g))))) [NL])"
    by (rule runCommands_no_multiline)
next
  assume "r \<in> set (Run (Build (Config g))
                     @ map (\<lambda>command. \<lparr>Command = command, Mounts = []\<rparr>)
                         (PreInstall (Build (Config g))))
        \<and> Contains_nl (TrimSpace (Command r))"
  then show "\<exists>first.
           find (\<lambda>r. Contains_nl (TrimSpace (Command r)))
             (Run (Build (Config g))
                @ map (\<lambda>command. \<lparr>Command = command, Mounts = []\<rparr>)
                    (PreInstall (Build (Config g)))) = Some first
         \<and> runCommands g = Inl (Error (multilineMessage (TrimSpace (Command first))))
         \<and> HasSuffix (multilineMessage (TrimSpace (Command first))) (TrimSpace (Command first))
         \<and> (\<exists>err. generateInitialSteps E g = (Inl err, g))
         \<and> (\<exists>err. GenerateModelBase E g = (Inl err, g))
         \<and> (\<exists>err. GenerateDockerfileWithoutSeparateWeights E g = (Inl err, g))
         \<and> (\<exists>err. fst (GenerateModelBaseWithSeparateWeights E imageName g) = Inl err)"
    using runCommands_multiline_fails [of r g E imageName] by blast
qed

theorem runCommands_multiline_error_witness:
  "runCommands (sample_generator sample_config) = Inr ''RUN echo hi''
   \<and> Contains_nl (TrimSpace ('' echo a'' @ [NL] @ ''echo b ''))
   \<and> runCommands (sample_generator multiline_config) =
       Inl (Error (multilineMessage (''echo a'' @ [NL] @ ''echo b'')))
   \<and> planLines (GenerateModelBase sample_collaborators (sample_generator multiline_config)) = []"
proof -
  have hi: "TrimSpace '' echo hi '' = ''echo hi''"
    by code_simp
  have trimmed: "TrimSpace ('' echo a'' @ [NL] @ ''echo b '') = ''echo a'' @ [NL] @ ''echo b''"
    by code_simp
  have ok: "TrimSpace ''echo ok'' = ''echo ok''"
    by code_simp
  have passes: "\<forall>r \<in> set (Run (Build (Config (sample_generator sample_config)))
                     @ map (\<lambda>command. \<lparr>Command = command, Mounts = []\<rparr>)
                         (PreInstall (Build (Config (sample_generator sample_config))))).
           \<not> Contains_nl (TrimSpace (Command r))"
    by (simp add: sample_generator_def sample_config_def Contains_nl_def hi)
  note success = runCommands_multiline_error
    [of "\<lparr>Command = '' echo hi '', Mounts = []\<rparr>" "sample_generator sample_config",
     THEN conjunct2, THEN conjunct1, THEN mp, OF passes]
  have line: "runLine \<lparr>Command = '' echo hi '', Mounts = []\<rparr> = ''RUN echo hi''"
    using runCommands_multiline_error
      [of "\<lparr>Command = '' echo hi '', Mounts = []\<rparr>" "sample_generator sample_config",
       THEN conjunct1]
    by (simp add: hi)
  from success line
  have first: "runCommands (sample_generator sample_config) = Inr ''RUN echo hi''"
    by (simp add: sample_generator_def sample_config_def)
  have offending: "Contains_nl (TrimSpace (Command \<lparr>Command = '' echo a'' @ [NL] @ ''echo b '', Mounts = []\<rparr>))"
    using trimmed by (simp add: Contains_nl_def)
  have member: "\<lparr>Command = '' echo a'' @ [NL] @ ''echo b '', Mounts = []\<rparr>
      \<in> set (Run (Build (Config (sample_generator multiline_config)))
               @ map (\<lambda>command. \<lparr>Command = command, Mounts = []\<rparr>)
                   (PreInstall (Build (Config (sample_generator multiline_config)))))"
    by (simp add: sample_generator_def multiline_config_def)
  from runCommands_multiline_error
    [of "\<lparr>Command = '' echo a'' @ [NL] @ ''echo b '', Mounts = []\<rparr>"
        "sample_generator multiline_config" sample_collaborators,
     THEN conjunct2, THEN conjunct2, THEN mp, OF conjI [OF member offending]]
  obtain first
    where found: "find (\<lambda>r. Contains_nl (TrimSpace (Command r)))
             (Run (Build (Config (sample_generator multiline_config)))
                @ map (\<lambda>command. \<lparr>Command = command, Mounts = []\<rparr>)
                    (PreInstall (Build (Config (sample_generator multiline_config))))) = Some first"
      and failed: "runCommands (sample_generator multiline_config) =
             Inl (Error (multilineMessage (TrimSpace (Command first))))"
      and none: "\<exists>err. GenerateModelBase sample_collaborators (sample_generator multiline_config) =
             (Inl err, sample_generator multiline_config)"
    by blast
  from found have "first = \<lparr>Command = '' echo a'' @ [NL] @ ''echo b '', Mounts = []\<rparr>"
    using trimmed ok by (simp add: sample_generator_def multiline_config_def Contains_nl_def)
  with failed trimmed
  have "runCommands (sample_generator multiline_config) =
       Inl (Error (multilineMessage (''echo a'' @ [NL] @ ''echo b'')))"
    by simp
  moreover from none
  have "planLines (GenerateModelBase sample_collaborators (sample_generator multiline_config)) = []"
    by (auto simp: planLines_def)
  moreover from trimmed have "Contains_nl (TrimSpace ('' echo a'' @ [NL] @ ''echo b ''))"
    by (simp add: Contains_nl_def)
  ultimately show ?thesis using first by blast
qed

section \<open>Claims on the plan with separate weights\<close>

text \<open>
  C1, as amended. In a plan generated with separate weights, the instructions that
  copy from the weights stage come after the initial steps and directly before the
  working-directory, port and entrypoint instructions, not after them; the
  instruction that copies the remaining build context is the last line of the plan.
  When neither the image name nor a discovered path contains a line break, the lines
  of the plan are exactly: the initial steps with the weights stage put before their
  first \<open>FROM\<close> line, one copy instruction per discovered path, directories first
  and then files, each in discovery order, and the four final instructions.
\<close>

theorem weight_copies_before_final_block:
  assumes "GenerateModelBaseWithSeparateWeights E imageName g =
             (Inr (weightsBase, dockerfile, ignore), g')"
  shows \<open>\<exists>initialSteps.
      FindWeights E (fileWalker g) = Inr (modelDirs g', modelFiles g')
    \<and> generateInitialSteps E (g\<lparr>modelDirs := modelDirs g', modelFiles := modelFiles g'\<rparr>) =
        (Inr initialSteps, g')
    \<and> Split dockerfile NL =
        filter (\<lambda>l. l \<noteq> [])
          (concat (map (\<lambda>chunk. Split chunk NL)
             (injectWeightsStage imageName [] (Split initialSteps NL)
              @ map (\<lambda>p. ''COPY --from=weights --link '' @ pathJoin [''/src'', p]
                           @ '' '' @ pathJoin [''/src'', p])
                  (modelDirs g' @ modelFiles g'))))
        @ [''WORKDIR /src'', ''EXPOSE 5000'', ''CMD ["python", "-m", "cog.server.http"]'',
           ''COPY . /src'']
    \<and> last (Split dockerfile NL) = ''COPY . /src''
    \<and> (NL \<notin> set imageName \<and> (\<forall>p \<in> set (modelDirs g' @ modelFiles g'). NL \<notin> set p) \<longrightarrow>
        Split dockerfile NL =
          injectWeightsStage imageName [] (Split initialSteps NL)
          @ map (\<lambda>p. ''COPY --from=weights --link '' @ pathJoin [''/src'', p]
                       @ '' '' @ pathJoin [''/src'', p])
              (modelDirs g' @ modelFiles g')
          @ [''WORKDIR /src'', ''EXPOSE 5000'', ''CMD ["python", "-m", "cog.server.http"]'',
             ''COPY . /src''])\<close>
proof -
  let ?copy = "\<lambda>p. ''COPY --from=weights --link '' @ pathJoin [''/src'', p]
                       @ '' '' @ pathJoin [''/src'', p]"
  from GenerateModelBaseWithSeparateWeights_success [OF assms] obtain initialSteps
    where found: "FindWeights E (fileWalker g) = Inr (modelDirs g', modelFiles g')"
      and init: "generateInitialSteps E (g\<lparr>modelDirs := modelDirs g', modelFiles := modelFiles g'\<rparr>) =
        (Inr initialSteps, g')"
      and plan: \<open>dockerfile =
        joinStringsWithoutLineSpace
          ((injectWeightsStage imageName [] (Split initialSteps NL)
            @ map ?copy (modelDirs g' @ modelFiles g'))
           @ [''WORKDIR /src'', ''EXPOSE 5000'', ''CMD ["python", "-m", "cog.server.http"]'',
              ''COPY . /src''])\<close>
    by blast
  let ?base = "injectWeightsStage imageName [] (Split initialSteps NL)
            @ map ?copy (modelDirs g' @ modelFiles g')"
  have lines: \<open>Split dockerfile NL =
        filter (\<lambda>l. l \<noteq> []) (concat (map (\<lambda>chunk. Split chunk NL) ?base))
        @ [''WORKDIR /src'', ''EXPOSE 5000'', ''CMD ["python", "-m", "cog.server.http"]'',
           ''COPY . /src'']\<close>
    unfolding plan by (rule plan_lines_final_block)
  then have final: "last (Split dockerfile NL) = ''COPY . /src''"
    by simp
  have exact: \<open>Split dockerfile NL =
          ?base @ [''WORKDIR /src'', ''EXPOSE 5000'', ''CMD ["python", "-m", "cog.server.http"]'',
             ''COPY . /src'']\<close>
    if name: "NL \<notin> set imageName"
      and paths: "\<forall>p \<in> set (modelDirs g' @ modelFiles g'). NL \<notin> set p"
  proof -
    have each: "l \<noteq> [] \<and> NL \<notin> set l" if "l \<in> set ?base" for l
    proof -
      from that injectWeightsStage_set [of imageName "Split initialSteps NL"]
      consider "l = ''FROM '' @ (imageName @ ''-weights'') @ '' AS '' @ ''weights''"
        | "l \<in> set (Split initialSteps NL)"
        | p where "p \<in> set (modelDirs g' @ modelFiles g')" "l = ?copy p"
        by auto
      then show ?thesis
      proof cases
        case 1
        with weights_stage_line [OF name] show ?thesis by simp
      next
        case 2
        with initialSteps_lines(2) [OF init] show ?thesis by blast
      next
        case 3
        with paths weight_copy_no_copy_all [of p] show ?thesis by simp
      qed
    qed
    then have "concat (map (\<lambda>chunk. Split chunk NL) ?base) = ?base"
      by (intro concat_Split_lines) blast
    moreover from each have "filter (\<lambda>l. l \<noteq> []) ?base = ?base"
      by (intro filter_True) blast
    ultimately show ?thesis
      using lines by simp
  qed
  from found init lines final exact show ?thesis
    by (intro exI [of _ initialSteps]) simp
qed

theorem weight_copies_before_final_block_witness:
  \<open>NL \<notin> set ''img''
   \<and> drop 4 (weightsPlanLines
        (GenerateModelBaseWithSeparateWeights sample_collaborators ''img''
           (SetUseCogBaseImage True (sample_generator sample_config)))) =
       [''COPY --from=weights --link /src/weights /src/weights'',
        ''COPY --from=weights --link /src/a.bin /src/a.bin'',
        ''WORKDIR /src'',
        ''EXPOSE 5000'',
        ''CMD ["python", "-m", "cog.server.http"]'',
        ''COPY . /src'']
   \<and> last (weightsPlanLines
        (GenerateModelBaseWithSeparateWeights sample_collaborators ''img''
           (SetUseCogBaseImage True (sample_generator sample_config)))) = ''COPY . /src''\<close>
proof -
  let ?g' = "(SetUseCogBaseImage True (sample_generator sample_config))
        \<lparr>modelDirs := [''weights''], modelFiles := [''a.bin'']\<rparr>"
  let ?plan = \<open>Join [''#syntax=docker/dockerfile:1.4'',
                 ''FROM img-weights AS weights'',
                 ''FROM r8.im/cog-base:cuda-python3.10-torch'',
                 ''RUN echo hi'',
                 ''COPY --from=weights --link /src/weights /src/weights'',
                 ''COPY --from=weights --link /src/a.bin /src/a.bin'',
                 ''WORKDIR /src'',
                 ''EXPOSE 5000'',
                 ''CMD ["python", "-m", "cog.server.http"]'',
                 ''COPY . /src''] [NL]\<close>
  have name: "NL \<notin> set ''img''" by simp
  have paths: "\<forall>p \<in> set (modelDirs ?g' @ modelFiles ?g'). NL \<notin> set p"
    by (simp add: SetUseCogBaseImage_def sample_generator_def)
  have join1: "pathJoin [''/src'', ''weights''] = ''/src/weights''" by code_simp
  have join2: "pathJoin [''/src'', ''a.bin''] = ''/src/a.bin''" by code_simp
  from weight_copies_before_final_block [OF sample_weights_plan] name paths
  obtain initialSteps where
    exact: \<open>Split ?plan NL =
          injectWeightsStage ''img'' [] (Split initialSteps NL)
          @ map (\<lambda>p. ''COPY --from=weights --link '' @ pathJoin [''/src'', p]
                       @ '' '' @ pathJoin [''/src'', p])
              (modelDirs ?g' @ modelFiles ?g')
          @ [''WORKDIR /src'', ''EXPOSE 5000'', ''CMD ["python", "-m", "cog.server.http"]'',
             ''COPY . /src'']\<close>
    and final: "last (Split ?plan NL) = ''COPY . /src''"
    by blast
  have lines: "weightsPlanLines
        (GenerateModelBaseWithSeparateWeights sample_collaborators ''img''
           (SetUseCogBaseImage True (sample_generator sample_config))) = Split ?plan NL"
    unfolding sample_weights_plan weightsPlanLines_def by (simp del: Split.simps Join.simps)
  have "length (Split ?plan NL) = 10" by simp
  then have four: "length (injectWeightsStage ''img'' [] (Split initialSteps NL)) = 4"
    by (subst (asm) exact) (simp add: SetUseCogBaseImage_def sample_generator_def del: Split.simps)
  have \<open>drop 4 (Split ?plan NL) =
       [''COPY --from=weights --link /src/weights /src/weights'',
        ''COPY --from=weights --link /src/a.bin /src/a.bin'',
        ''WORKDIR /src'',
        ''EXPOSE 5000'',
        ''CMD ["python", "-m", "cog.server.http"]'',
        ''COPY . /src'']\<close>
    by (subst exact) (simp add: four join1 join2 SetUseCogBaseImage_def sample_generator_def del: Split.simps)
  with name final lines show ?thesis by (simp del: Split.simps Join.simps)
qed

text \<open>
  The claim C1 as it was stated puts the copies from the weights stage after the
  working-directory, port and entrypoint instructions. On the sample input they are
  lines 5 and 6 of the plan, before \<open>WORKDIR /src\<close> on line 7.
\<close>

theorem weight_copies_after_entrypoint_counterexample:
  \<open>weightsPlanLines
     (GenerateModelBaseWithSeparateWeights sample_collaborators ''img''
        (SetUseCogBaseImage True (sample_generator sample_config))) =
   [''#syntax=docker/dockerfile:1.4'',
    ''FROM img-weights AS weights'',
    ''FROM r8.im/cog-base:cuda-python3.10-torch'',
    ''RUN echo hi'',
    ''COPY --from=weights --link /src/weights /src/weights'',
    ''COPY --from=weights --link /src/a.bin /src/a.bin'',
    ''WORKDIR /src'',
    ''EXPOSE 5000'',
    ''CMD ["python", "-m", "cog.server.http"]'',
    ''COPY . /src'']\<close>
  unfolding sample_weights_plan weightsPlanLines_def by simp

text \<open>
  C2, as amended. In every plan generated with separate weights the last line is
  \<open>COPY . /src\<close>. It occurs exactly once provided that no line break is embedded
  in the image name, a discovered path, the runtime version, a system package, the id
  or target of a mount, the resolved base image, the relative scratch directory or
  the extra build-stage command.
\<close>

theorem final_copy_exactly_once:
  assumes "GenerateModelBaseWithSeparateWeights E imageName g =
             (Inr (weightsBase, dockerfile, ignore), g')"
  shows "last (Split dockerfile NL) = ''COPY . /src''
     \<and> (lineBreakFree E imageName g \<longrightarrow> count_list (Split dockerfile NL) ''COPY . /src'' = 1)"
proof
  let ?copy = "\<lambda>p. ''COPY --from=weights --link '' @ pathJoin [''/src'', p]
                       @ '' '' @ pathJoin [''/src'', p]"
  from GenerateModelBaseWithSeparateWeights_success [OF assms] obtain initialSteps
    where found: "FindWeights E (fileWalker g) = Inr (modelDirs g', modelFiles g')"
      and init: "generateInitialSteps E (g\<lparr>modelDirs := modelDirs g', modelFiles := modelFiles g'\<rparr>) =
        (Inr initialSteps, g')"
      and plan: \<open>dockerfile =
        joinStringsWithoutLineSpace
          ((injectWeightsStage imageName [] (Split initialSteps NL)
            @ map ?copy (modelDirs g' @ modelFiles g'))
           @ [''WORKDIR /src'', ''EXPOSE 5000'', ''CMD ["python", "-m", "cog.server.http"]'',
              ''COPY . /src''])\<close>
    by blast
  let ?base = "injectWeightsStage imageName [] (Split initialSteps NL)
            @ map ?copy (modelDirs g' @ modelFiles g')"
  have lines: \<open>Split dockerfile NL =
        filter (\<lambda>l. l \<noteq> []) (concat (map (\<lambda>chunk. Split chunk NL) ?base))
        @ [''WORKDIR /src'', ''EXPOSE 5000'', ''CMD ["python", "-m", "cog.server.http"]'',
           ''COPY . /src'']\<close>
    unfolding plan by (rule plan_lines_final_block)
  then show "last (Split dockerfile NL) = ''COPY . /src''"
    by simp
  show "lineBreakFree E imageName g \<longrightarrow> count_list (Split dockerfile NL) ''COPY . /src'' = 1"
  proof
    assume free: "lineBreakFree E imageName g"
    with found have name: "NL \<notin> set imageName"
      and paths: "\<forall>p \<in> set (modelDirs g' @ modelFiles g'). NL \<notin> set p"
      by (simp_all add: lineBreakFree_def list_all_iff)
    from free have "lineBreakFree E imageName (g\<lparr>modelDirs := modelDirs g', modelFiles := modelFiles g'\<rparr>)"
      by (simp only: lineBreakFree_models)
    from generateInitialSteps_no_copy_all [OF this init]
    have steps: "''COPY . /src'' \<notin> set (Split initialSteps NL)" .
    have "''COPY . /src'' \<notin> set (Split chunk NL)" if "chunk \<in> set ?base" for chunk
    proof -
      from that injectWeightsStage_set [of imageName "Split initialSteps NL"]
      consider "chunk = ''FROM '' @ (imageName @ ''-weights'') @ '' AS '' @ ''weights''"
        | "chunk \<in> set (Split initialSteps NL)"
        | p where "p \<in> set (modelDirs g' @ modelFiles g')" "chunk = ?copy p"
        by auto
      then show ?thesis
      proof cases
        case 1
        show ?thesis
          unfolding 1 using weights_stage_line(1,2) [OF name] by (rule line_free_no_copy_all)
      next
        case 2
        then have "Split chunk NL = [chunk]" by (rule Split_line)
        with 2 steps show ?thesis by auto
      next
        case 3
        with paths have "NL \<notin> set p" by blast
        from weight_copy_no_copy_all(1,2) [OF this] show ?thesis
          unfolding 3(2) by (rule line_free_no_copy_all)
      qed
    qed
    then have "''COPY . /src'' \<notin> set (filter (\<lambda>l. l \<noteq> []) (concat (map (\<lambda>chunk. Split chunk NL) ?base)))"
      by (rule concat_lines_avoid)
    then have "count_list (filter (\<lambda>l. l \<noteq> []) (concat (map (\<lambda>chunk. Split chunk NL) ?base))) ''COPY . /src'' = 0"
      by (simp only: count_list_0_iff not_False_eq_True)
    with lines show "count_list (Split dockerfile NL) ''COPY . /src'' = 1"
      by simp
  qed
qed

theorem final_copy_exactly_once_witness:
  "lineBreakFree sample_collaborators ''img'' (SetUseCogBaseImage True (sample_generator sample_config))
   \<and> last (weightsPlanLines
        (GenerateModelBaseWithSeparateWeights sample_collaborators ''img''
           (SetUseCogBaseImage True (sample_generator sample_config)))) = ''COPY . /src''
   \<and> count_list (weightsPlanLines
        (GenerateModelBaseWithSeparateWeights sample_collaborators ''img''
           (SetUseCogBaseImage True (sample_generator sample_config)))) ''COPY . /src'' = 1"
  using final_copy_exactly_once [OF sample_weights_plan] sample_lineBreakFree
  unfolding sample_weights_plan weightsPlanLines_def
  by (simp del: Split.simps Join.simps)

text \<open>
  The claim C2 as it was stated has \<open>COPY . /src\<close> exactly once in every plan. With
  a weight file whose path is \<open>w\<close>, a line break and \<open>COPY . /src\<close>, the
  instruction that copies it from the weights stage ends in a line that reads
  \<open>COPY . /src\<close>, so the plan has that line twice.
\<close>

theorem final_copy_exactly_once_counterexample:
  \<open>weightsPlanLines
     (GenerateModelBaseWithSeparateWeights linebreak_collaborators ''img''
        (SetUseCogBaseImage True (sample_generator sample_config))) =
   [''#syntax=docker/dockerfile:1.4'',
    ''FROM img-weights AS weights'',
    ''FROM r8.im/cog-base:cuda-python3.10-torch'',
    ''RUN echo hi'',
    ''COPY --from=weights --link /src/w'',
    ''COPY . /src /src/w'',
    ''COPY . /src'',
    ''WORKDIR /src'',
    ''EXPOSE 5000'',
    ''CMD ["python", "-m", "cog.server.http"]'',
    ''COPY . /src'']
   \<and> count_list (weightsPlanLines
        (GenerateModelBaseWithSeparateWeights linebreak_collaborators ''img''
           (SetUseCogBaseImage True (sample_generator sample_config)))) ''COPY . /src'' = 2\<close>
  unfolding linebreak_weights_plan_lines by simp

section \<open>Claims on system packages\<close>

text \<open>
  C5, as amended. When the list of system packages is empty, \<open>aptInstalls\<close> yields
  the empty text and contributes nothing to the plan: the initial steps are exactly
  what the remaining fragments assemble to, and each of their lines is a line of one
  of those fragments. (A line that installs packages with apt can still come from the
  runtime-install fragment, the init-process fragment or a custom run command.)
\<close>

theorem empty_system_packages_no_fragment:
  assumes "SystemPackages (Build (Config g)) = []"
  shows "aptInstalls E g = Inr []
    \<and> (\<forall>initialSteps g'. generateInitialSteps E g = (Inr initialSteps, g') \<longrightarrow>
         (\<exists>baseImage python deps run.
             BaseImage E g = Inr baseImage
           \<and> installPython g = Inr python
           \<and> runCommands g = Inr run
           \<and> (if useCogBaseImage g then pipInstalls E g else pipInstallStage E g) = (Inr deps, g')
           \<and> (let fragments =
                    (if useCogBaseImage g
                     then [''#syntax=docker/dockerfile:1.4'', ''FROM '' @ baseImage, deps, run]
                     else [''#syntax=docker/dockerfile:1.4'', deps, ''FROM '' @ baseImage,
                           preamble, installTini, python,
                           copyPipPackagesFromInstallStage g', run])
               in initialSteps = joinStringsWithoutLineSpace fragments
                  \<and> (\<forall>l \<in> set (Split initialSteps NL).
                        \<exists>fragment \<in> set fragments. l \<in> set (Split fragment NL)))))"
proof (intro conjI allI impI)
  from assms show apt: "aptInstalls E g = Inr []"
    by (simp add: aptInstalls_def)
  fix initialSteps g'
  assume init: "generateInitialSteps E g = (Inr initialSteps, g')"
  then obtain baseImage python run
    where base: "BaseImage E g = Inr baseImage"
      and python: "installPython g = Inr python"
      and run: "runCommands g = Inr run"
    by (auto simp: generateInitialSteps_def split: sum.splits)
  define fragments where "fragments = (\<lambda>deps.
       if useCogBaseImage g
       then [''#syntax=docker/dockerfile:1.4'', ''FROM '' @ baseImage, deps, run]
       else [''#syntax=docker/dockerfile:1.4'', deps, ''FROM '' @ baseImage,
             preamble, installTini, python,
             copyPipPackagesFromInstallStage g', run])"
  have "\<exists>deps. (if useCogBaseImage g then pipInstalls E g else pipInstallStage E g) = (Inr deps, g')
      \<and> initialSteps = joinStringsWithoutLineSpace (fragments deps)"
  proof (cases "useCogBaseImage g")
    case True
    with init base python run apt obtain deps
      where "pipInstalls E g = (Inr deps, g')"
        and "initialSteps = joinStringsWithoutLineSpace
               ([''#syntax=docker/dockerfile:1.4'', ''FROM '' @ baseImage] @ [] # [deps, run])"
      by (auto simp: generateInitialSteps_def split: sum.splits prod.splits)
    with True show ?thesis
      unfolding joinStringsWithoutLineSpace_drop_empty by (simp add: fragments_def)
  next
    case False
    with init base python run apt obtain deps
      where "pipInstallStage E g = (Inr deps, g')"
        and "initialSteps = joinStringsWithoutLineSpace
               ([''#syntax=docker/dockerfile:1.4'', deps, ''FROM '' @ baseImage,
                 preamble, installTini, python] @ [] # [copyPipPackagesFromInstallStage g', run])"
      by (auto simp: generateInitialSteps_def split: sum.splits prod.splits)
    with False show ?thesis
      unfolding joinStringsWithoutLineSpace_drop_empty by (simp add: fragments_def)
  qed
  then obtain deps
    where deps: "(if useCogBaseImage g then pipInstalls E g else pipInstallStage E g) = (Inr deps, g')"
      and steps: "initialSteps = joinStringsWithoutLineSpace (fragments deps)"
    by blast
  have nonempty: "\<forall>l \<in> set (Split initialSteps NL). l \<noteq> []"
    using initialSteps_lines(2) [OF init] by blast
  have "\<forall>l \<in> set (Split initialSteps NL). \<exists>fragment \<in> set (fragments deps). l \<in> set (Split fragment NL)"
  proof
    fix l
    assume l: "l \<in> set (Split initialSteps NL)"
    with nonempty have "l \<noteq> []" by blast
    with l show "\<exists>fragment \<in> set (fragments deps). l \<in> set (Split fragment NL)"
      unfolding steps by (rule joinStringsWithoutLineSpace_member)
  qed
  with base python run deps steps
  show "\<exists>baseImage python deps run.
             BaseImage E g = Inr baseImage
           \<and> installPython g = Inr python
           \<and> runCommands g = Inr run
           \<and> (if useCogBaseImage g then pipInstalls E g else pipInstallStage E g) = (Inr deps, g')
           \<and> (let fragments =
                    (if useCogBaseImage g
                     then [''#syntax=docker/dockerfile:1.4'', ''FROM '' @ baseImage, deps, run]
                     else [''#syntax=docker/dockerfile:1.4'', deps, ''FROM '' @ baseImage,
                           preamble, installTini, python,
                           copyPipPackagesFromInstallStage g', run])
               in initialSteps = joinStringsWithoutLineSpace fragments
                  \<and> (\<forall>l \<in> set (Split initialSteps NL).
                        \<exists>fragment \<in> set fragments. l \<in> set (Split fragment NL)))"
    unfolding Let_def fragments_def by blast
qed
theorem empty_system_packages_no_fragment_witness:
  "SystemPackages (Build (Config (SetUseCogBaseImage True (sample_generator sample_config)))) = []
   \<and> aptInstalls sample_collaborators (SetUseCogBaseImage True (sample_generator sample_config)) = Inr []
   \<and> planLines (generateInitialSteps sample_collaborators
         (SetUseCogBaseImage True (sample_generator sample_config))) =
       [''#syntax=docker/dockerfile:1.4'', ''FROM r8.im/cog-base:cuda-python3.10-torch'', ''RUN echo hi'']
   \<and> \<not> list_ex isAptInstall
         (planLines (generateInitialSteps sample_collaborators
            (SetUseCogBaseImage True (sample_generator sample_config))))"
proof -
  have empty: "SystemPackages (Build (Config (SetUseCogBaseImage True (sample_generator sample_config)))) = []"
    by (simp add: sample_defs)
  from empty_system_packages_no_fragment [OF empty, of sample_collaborators] sample_initial_steps
  have "aptInstalls sample_collaborators (SetUseCogBaseImage True (sample_generator sample_config)) = Inr []"
    by blast
  moreover have lines: "planLines (generateInitialSteps sample_collaborators
         (SetUseCogBaseImage True (sample_generator sample_config))) =
       [''#syntax=docker/dockerfile:1.4'', ''FROM r8.im/cog-base:cuda-python3.10-torch'', ''RUN echo hi'']"
    unfolding sample_initial_steps planLines_def by simp
  moreover have "\<not> list_ex isAptInstall
         (planLines (generateInitialSteps sample_collaborators
            (SetUseCogBaseImage True (sample_generator sample_config))))"
    unfolding lines by (simp add: isAptInstall_def HasPrefix_def)
  ultimately show ?thesis using empty by blast
qed

text \<open>
  The claim C5 as it was stated has no apt install instruction on any line of the
  plan. With the GPU flag and the accelerator base image, and no system package, the
  runtime-install fragment brings a line that starts exactly like the instruction of
  \<open>aptInstalls\<close>.
\<close>

theorem no_apt_install_line_counterexample:
  "SystemPackages (Build (Config (sample_generator gpu_config))) = []
   \<and> list_ex isAptInstall
        (planLines (GenerateModelBase sample_collaborators (sample_generator gpu_config)))"
proof
  show "SystemPackages (Build (Config (sample_generator gpu_config))) = []"
    by (simp add: sample_defs)
  let ?apt = "''RUN --mount=type=cache,target=/var/cache/apt,sharing=locked apt-get update -qq && apt-get install -qqy --no-install-recommends '' @ [BSL]"
  from gpu_initial_steps obtain stage
    where init: "generateInitialSteps sample_collaborators (sample_generator gpu_config) =
     (Inr (joinStringsWithoutLineSpace
             [''#syntax=docker/dockerfile:1.4'', stage,
              ''FROM '' @ ''nvidia/cuda:11.8.0-cudnn8-devel-ubuntu22.04'',
              preamble, installTini,
              Join (installPythonCUDA_lines ''3.10'') [NL], [],
              copyPipPackagesFromInstallStage (sample_generator gpu_config), []]),
      sample_generator gpu_config)"
    by blast
  let ?steps = "joinStringsWithoutLineSpace
             [''#syntax=docker/dockerfile:1.4'', stage,
              ''FROM '' @ ''nvidia/cuda:11.8.0-cudnn8-devel-ubuntu22.04'',
              preamble, installTini,
              Join (installPythonCUDA_lines ''3.10'') [NL], [],
              copyPipPackagesFromInstallStage (sample_generator gpu_config), []]"
  have "?apt \<in> set (installPythonCUDA_lines ''3.10'')"
    by (simp add: installPythonCUDA_lines_def)
  then have "?apt \<in> set (Split (Join (installPythonCUDA_lines ''3.10'') [NL]) NL)"
    by (simp add: installPythonCUDA_Split del: Split.simps Join.simps)
  then have "?apt \<in> set (filter (\<lambda>s. s \<noteq> []) (Split ?steps NL))"
    unfolding Split_joinStringsWithoutLineSpace by (simp del: Split.simps Join.simps)
  then have in_steps: "?apt \<in> set (Split ?steps NL)"
    by (simp del: Split.simps Join.simps)
  have \<open>planLines (GenerateModelBase sample_collaborators (sample_generator gpu_config)) =
      Split (Join [?steps, ''WORKDIR /src'', ''EXPOSE 5000'',
                   ''CMD ["python", "-m", "cog.server.http"]''] [NL]) NL\<close>
    by (simp add: planLines_def GenerateModelBase_def init del: Split.simps Join.simps)
  also have \<open>\<dots> = concat (map (\<lambda>l. Split l NL)
                  [?steps, ''WORKDIR /src'', ''EXPOSE 5000'',
                   ''CMD ["python", "-m", "cog.server.http"]''])\<close>
    by (rule Split_Join_concat) simp
  finally have "?apt \<in> set (planLines (GenerateModelBase sample_collaborators (sample_generator gpu_config)))"
    using in_steps by (simp del: Split.simps Join.simps)
  moreover have "isAptInstall ?apt"
    by (simp add: isAptInstall_def HasPrefix_def)
  ultimately show "list_ex isAptInstall
        (planLines (GenerateModelBase sample_collaborators (sample_generator gpu_config)))"
    unfolding list_ex_iff by blast
qed

end
